theory Spec2Isabelle
  imports Complex_Main "HOL-Library.Word"
begin

section \<open>Python values shared by the three modules\<close>

text \<open>
  Exceptions are values: every \<^verbatim>\<open>raise\<close>, failed \<^verbatim>\<open>assert\<close> and failed attribute
  or index access of the source is a branch that returns \<open>Inl\<close> of one of these.
\<close>

datatype env_error =
    FileNotFoundError
  | FileExistsError
  | NotADirectoryError
  | IsADirectoryError
  | PermissionError
  | UnicodeDecodeError
  | ImportError
  | RuntimeError

datatype error =
    AssertionError
  | AttributeError
  | IndexError
  | KeyError
  | ValueError
  | ConfigurationError
  | EnvError env_error
  | OutsideModel

text \<open>Sequencing of fallible steps: the first exception ends the computation.\<close>

definition and_then :: "error + 'a \<Rightarrow> ('a \<Rightarrow> error + 'b) \<Rightarrow> error + 'b" where
  "and_then r f = (case r of Inl e \<Rightarrow> Inl e | Inr x \<Rightarrow> f x)"

subsection \<open>Strings\<close>

text \<open>
  Paths, language codes and the other strings that the program builds itself are
  \<open>string\<close>s. The text of a file, and every token cut from it, is a \<open>ustring\<close>: the list
  of the Unicode code points of a Python \<^verbatim>\<open>str\<close>, whatever they are, as the integers that
  \<^verbatim>\<open>ord\<close> gives. \<open>text_of\<close> gives the code points of an ASCII literal.
\<close>

type_synonym ustring = "int list"

definition text_of :: "string \<Rightarrow> ustring" where
  "text_of s = map of_char s"

text \<open>
  \<open>isspace\<close> holds of the code points that \<^verbatim>\<open>str.split()\<close> cuts at: the ASCII
  whitespace and separators, U+0085, U+00A0, U+1680, U+2000 to U+200A, U+2028, U+2029,
  U+202F, U+205F and U+3000.
\<close>

definition isspace :: "int \<Rightarrow> bool" where
  "isspace c = (c \<in> set [9, 10, 11, 12, 13, 28, 29, 30, 31, 32, 133, 160, 5760,
                           8192, 8193, 8194, 8195, 8196, 8197, 8198, 8199, 8200, 8201, 8202,
                           8232, 8233, 8239, 8287, 12288])"

text \<open>\<^verbatim>\<open>s.rstrip('\n')\<close> removes every trailing line feed (code point 10).\<close>

definition rstrip_newline :: "ustring \<Rightarrow> ustring" where
  "rstrip_newline s = rev (dropWhile (\<lambda>c. c = 10) (rev s))"

text \<open>
  \<^verbatim>\<open>s.split()\<close> scans the text once: whitespace ends the word collected so far, and
  runs of whitespace produce no empty words.
\<close>

fun split_from :: "ustring \<Rightarrow> ustring \<Rightarrow> ustring list" where
  "split_from word [] = (if word = [] then [] else [word])"
| "split_from word (c # cs) =
     (if isspace c then (if word = [] then split_from [] cs else word # split_from [] cs)
      else split_from (word @ [c]) cs)"

definition split :: "ustring \<Rightarrow> ustring list" where
  "split s = split_from [] s"

text \<open>\<^verbatim>\<open>sep.join(words)\<close>.\<close>

fun join_with :: "'a list \<Rightarrow> 'a list list \<Rightarrow> 'a list" where
  "join_with sep [] = []"
| "join_with sep [w] = w"
| "join_with sep (w # ws) = w @ sep @ join_with sep ws"

text \<open>
  \<^verbatim>\<open>template.format(arg)\<close> with one positional string argument. \<^verbatim>\<open>{{\<close> and \<^verbatim>\<open>}}\<close> are
  escapes, \<^verbatim>\<open>{}\<close> is the next positional argument (\<open>used\<close> counts the ones taken so far,
  and there is only one), a lone \<^verbatim>\<open>}\<close> or a final \<^verbatim>\<open>{\<close> is a \<^verbatim>\<open>ValueError\<close>. A
  replacement field with a name, a conversion or a format specification is outside the
  model.
\<close>

fun format_from :: "nat \<Rightarrow> string \<Rightarrow> string \<Rightarrow> error + string" where
  "format_from used [] arg = Inr []"
| "format_from used [c] arg =
     (if c = CHR ''{'' \<or> c = CHR ''}'' then Inl ValueError else Inr [c])"
| "format_from used (c # d # cs) arg =
     (if c = CHR ''{'' then
        (if d = CHR ''{'' then and_then (format_from used cs arg) (\<lambda>r. Inr (c # r))
         else if d = CHR ''}'' then
           (if used = 0 then and_then (format_from (Suc used) cs arg) (\<lambda>r. Inr (arg @ r))
            else Inl IndexError)
         else Inl OutsideModel)
      else if c = CHR ''}'' then
        (if d = CHR ''}'' then and_then (format_from used cs arg) (\<lambda>r. Inr (c # r))
         else Inl ValueError)
      else and_then (format_from used (d # cs) arg) (\<lambda>r. Inr (c # r)))"

definition format1 :: "string \<Rightarrow> string \<Rightarrow> error + string" where
  "format1 template arg = format_from 0 template arg"

text \<open>\<^verbatim>\<open>os.path.join\<close> and \<^verbatim>\<open>os.path.basename\<close> (posixpath).\<close>

definition join_step :: "string \<Rightarrow> string \<Rightarrow> string" where
  "join_step path b =
     (if b \<noteq> [] \<and> hd b = CHR ''/'' then b
      else if path = [] \<or> last path = CHR ''/'' then path @ b
      else path @ ''/'' @ b)"

definition join :: "string \<Rightarrow> string list \<Rightarrow> string" where
  "join a p = foldl join_step a p"

definition basename :: "string \<Rightarrow> string" where
  "basename p = rev (takeWhile (\<lambda>c. c \<noteq> CHR ''/'') (rev p))"

text \<open>
  \<^verbatim>\<open>xs[i]\<close> on a list: a negative index counts from the end, anything else out of range
  is an \<^verbatim>\<open>IndexError\<close>.
\<close>

definition subscript :: "'a list \<Rightarrow> int \<Rightarrow> error + 'a" where
  "subscript xs i =
     (if 0 \<le> i \<and> i < int (length xs) then Inr (xs ! nat i)
      else if i < 0 \<and> - int (length xs) \<le> i then Inr (xs ! nat (int (length xs) + i))
      else Inl IndexError)"

subsection \<open>Settings\<close>

text \<open>
  \<^verbatim>\<open>ld_research.settings\<close> is not among the sources; its constants are the fields of a
  record that every operation takes.
\<close>

record settings =
  ROOT_CORPUS_DIR :: string
  ROOT_TOK_DIR :: string
  ROOT_BPE_DIR :: string
  FR :: string
  EN :: string
  DE :: string
  BOS_WORD :: ustring
  EOS_WORD :: ustring
  PYTHONBIN :: string
  LEARN_JOINT_BPE :: string
  APPLY_BPE :: string
  MIN_FREQ :: int

subsection \<open>The vocabulary and the padding helper\<close>

text \<open>
  Modelled from the spec: class \<^verbatim>\<open>Vocab\<close> of \<^verbatim>\<open>ld_research.text\<close> is not among the
  sources. The spec describes it as a token table for one language with a reserved index
  for unknown tokens; \<^verbatim>\<open>numerize\<close> keeps the shape of a batch and replaces every token by
  its index, an unknown token by the reserved one.
\<close>

record vocab =
  vocab_lang :: string
  stoi :: "(ustring \<times> int) list"
  unk_index :: int

definition numerize :: "vocab \<Rightarrow> ustring list list \<Rightarrow> int list list" where
  "numerize v batch =
     map (map (\<lambda>tok. case map_of (stoi v) tok of Some i \<Rightarrow> i | None \<Rightarrow> unk_index v)) batch"

text \<open>
  Modelled from the spec: \<^verbatim>\<open>pad_to_same_length\<close> of \<^verbatim>\<open>ld_research.text.utils\<close> is not
  among the sources. The spec: every sentence becomes \<open>[init_token?] + tokens + [end_token?]\<close>,
  every result is padded on the right with \<open>pad_token\<close> to the longest one, and the
  length before padding is recorded per sentence.
\<close>

definition wrap :: "'a option \<Rightarrow> 'a option \<Rightarrow> 'a list \<Rightarrow> 'a list" where
  "wrap init_token end_token sentence =
     (case init_token of None \<Rightarrow> [] | Some b \<Rightarrow> [b]) @ sentence @
     (case end_token of None \<Rightarrow> [] | Some e \<Rightarrow> [e])"

definition pad_to_same_length ::
  "'a list list \<Rightarrow> 'a \<Rightarrow> 'a option \<Rightarrow> 'a option \<Rightarrow> 'a list list \<times> int list" where
  "pad_to_same_length sentences pad_token init_token end_token =
     (let wrapped = map (wrap init_token end_token) sentences;
          max_len = fold max (map length wrapped) 0
      in (map (\<lambda>w. w @ replicate (max_len - length w) pad_token) wrapped,
          map (\<lambda>w. int (length w)) wrapped))"

subsection \<open>The environment\<close>

text \<open>
  The file system is a value of an arbitrary type \<open>'fs\<close>, and every operation the program
  asks of the operating system or of a library that is not among the sources is a field of
  the environment: nothing is assumed about them beyond their types. An operation that
  changes the file system returns the new one, with the exception it raised if any.
  \<^item> \<open>open_read p\<close> is \<^verbatim>\<open>open(p, 'r')\<close> and \<open>readlines p\<close> the \<^verbatim>\<open>readlines()\<close> of that file;
  \<^item> \<open>load_vocab lang\<close> is the constructor of \<^verbatim>\<open>Vocab\<close>, which is not among the sources:
    the vocabulary it builds for a language, or the exception it raises, whichever that is;
  \<^item> \<open>path_exists\<close> is \<^verbatim>\<open>os.path.exists\<close>, \<open>makedirs\<close> is \<^verbatim>\<open>os.makedirs\<close>,
    \<open>open_write p\<close> is \<^verbatim>\<open>open(p, 'w')\<close> and \<open>write_text p\<close> a \<^verbatim>\<open>write\<close> to that file;
  \<^item> \<open>subprocess_call argv\<close> is \<^verbatim>\<open>subprocess.call\<close>: what the external program does
    to the file system, or the error of not finding the program;
  \<^item> \<open>get_tokenizer\<close> is torchtext's \<^verbatim>\<open>get_tokenizer('moses')\<close>, and \<open>lower\<close> is
    \<^verbatim>\<open>str.lower\<close>;
  \<^item> \<open>IWSLT_name\<close>, \<open>IWSLT_base_dirname\<close> and \<open>IWSLT_base_url\<close> are the constants of
    torchtext's \<^verbatim>\<open>IWSLT\<close> class, the last two with \<^verbatim>\<open>.format\<close> applied to them, and
    \<open>IWSLT_download\<close>, \<open>IWSLT_clean\<close> its class methods; \<open>IWSLT_download\<close> is given the
    class attributes \<^verbatim>\<open>dirname\<close> and \<^verbatim>\<open>urls\<close> it reads.
\<close>

record 'fs env =
  open_read :: "string \<Rightarrow> 'fs \<Rightarrow> env_error option"
  readlines :: "string \<Rightarrow> 'fs \<Rightarrow> env_error + ustring list"
  load_vocab :: "string \<Rightarrow> 'fs \<Rightarrow> error + vocab"
  path_exists :: "string \<Rightarrow> 'fs \<Rightarrow> bool"
  makedirs :: "string \<Rightarrow> 'fs \<Rightarrow> env_error option \<times> 'fs"
  open_write :: "string \<Rightarrow> 'fs \<Rightarrow> env_error option \<times> 'fs"
  write_text :: "string \<Rightarrow> ustring \<Rightarrow> 'fs \<Rightarrow> env_error option \<times> 'fs"
  subprocess_call :: "string list \<Rightarrow> 'fs \<Rightarrow> env_error option \<times> 'fs"
  get_tokenizer :: "env_error + (ustring \<Rightarrow> ustring list)"
  lower :: "ustring \<Rightarrow> ustring"
  IWSLT_name :: string
  IWSLT_base_dirname :: "string \<Rightarrow> string \<Rightarrow> string"
  IWSLT_base_url :: "string \<Rightarrow> string \<Rightarrow> string \<Rightarrow> string"
  IWSLT_download :: "string \<Rightarrow> string list \<Rightarrow> string \<Rightarrow> string \<Rightarrow> 'fs \<Rightarrow> env_error option \<times> 'fs"
  IWSLT_clean :: "string \<Rightarrow> 'fs \<Rightarrow> env_error option \<times> 'fs"

definition from_env :: "env_error + 'a \<Rightarrow> error + 'a" where
  "from_env r = (case r of Inl e \<Rightarrow> Inl (EnvError e) | Inr x \<Rightarrow> Inr x)"

text \<open>\<^verbatim>\<open>Vocab(lang=lang)\<close> on the file system as it is.\<close>

definition Vocab :: "'fs env \<Rightarrow> 'fs \<Rightarrow> string \<Rightarrow> error + vocab" where
  "Vocab env files lang = load_vocab env lang files"

section \<open>text/iwslt.py\<close>

text \<open>
  \<^verbatim>\<open>IWSLTExample\<close> holds token lists and the integer 0 before batching and tensors after
  it, so the types of its fields are parameters.
\<close>

record ('s, 'l) IWSLTExample =
  src :: 's
  tgt :: 's
  src_lengths :: 'l
  tgt_lengths :: 'l

record IWSLTDataset =
  src_lang :: string
  tgt_lang :: string
  mode :: string
  src_vocab :: vocab
  tgt_vocab :: vocab
  bpe_corpus_dir :: string
  src_text :: "ustring list"
  tgt_text :: "ustring list"

definition prefix :: "string \<Rightarrow> string option" where
  "prefix = map_of [(''train'', ''train''),
                    (''valid'', ''IWSLT16.TED.tst2013''),
                    (''test'', ''IWSLT16.TED.tst2014'')]"

text \<open>
  \<^verbatim>\<open>get_txt\<close> reads the attributes \<^verbatim>\<open>src_lang\<close>, \<^verbatim>\<open>tgt_lang\<close> and \<^verbatim>\<open>bpe_corpus_dir\<close>
  of the object under_dir construction; they are arguments here. The language codes are part
  of the template that \<^verbatim>\<open>.format\<close> is applied to.
\<close>

definition opened :: "env_error option \<Rightarrow> error + unit" where
  "opened r = (case r of None \<Rightarrow> Inr () | Some e \<Rightarrow> Inl (EnvError e))"

definition get_txt ::
  "'fs env \<Rightarrow> 'fs \<Rightarrow> string \<Rightarrow> string \<Rightarrow> string \<Rightarrow> string \<Rightarrow> error + ustring list \<times> ustring list" where
  "get_txt env files s_lang t_lang corpus_dir md =
     (let base_text_name = ''{}.'' @ drop 1 s_lang @ ''-'' @ drop 1 t_lang;
          base_text_name_src = base_text_name @ s_lang;
          base_text_name_tgt = base_text_name @ t_lang
      in and_then (case prefix md of None \<Rightarrow> Inl KeyError | Some p \<Rightarrow> Inr p) (\<lambda>p.
         and_then (format1 base_text_name_src p) (\<lambda>src_name.
         let src_txt = join corpus_dir [src_name]
         in and_then (format1 base_text_name_tgt p) (\<lambda>tgt_name.
            let tgt_txt = join corpus_dir [tgt_name]
            in and_then (opened (open_read env src_txt files)) (\<lambda>_.
               and_then (opened (open_read env tgt_txt files)) (\<lambda>_.
               and_then (from_env (readlines env src_txt files)) (\<lambda>src_contents.
               and_then (from_env (readlines env tgt_txt files)) (\<lambda>tgt_contents.
               Inr (src_contents, tgt_contents)))))))))"

text \<open>\<^verbatim>\<open>IWSLTDataset.__init__\<close>.\<close>

definition IWSLTDataset_init ::
  "'fs env \<Rightarrow> settings \<Rightarrow> 'fs \<Rightarrow> string \<Rightarrow> string \<Rightarrow> string \<Rightarrow> error + IWSLTDataset" where
  "IWSLTDataset_init env cfg files s_lang t_lang md =
     (if md \<notin> set [''train'', ''test'', ''valid''] then Inl AssertionError
      else
        and_then (Vocab env files s_lang) (\<lambda>s_vocab.
        and_then (Vocab env files t_lang) (\<lambda>t_vocab.
        let corpus_dir = join (ROOT_BPE_DIR cfg) [''iwslt'', drop 1 s_lang @ ''-'' @ drop 1 t_lang]
        in and_then (get_txt env files s_lang t_lang corpus_dir md) (\<lambda>(s_text, t_text).
           if length s_text = length t_text
           then Inr \<lparr>src_lang = s_lang, tgt_lang = t_lang, mode = md,
                     src_vocab = s_vocab, tgt_vocab = t_vocab, bpe_corpus_dir = corpus_dir,
                     src_text = s_text, tgt_text = t_text\<rparr>
           else Inl AssertionError))))"

text \<open>\<^verbatim>\<open>__len__\<close> and \<^verbatim>\<open>__getitem__\<close>.\<close>

definition len :: "IWSLTDataset \<Rightarrow> nat" where
  "len ds = length (src_text ds)"

definition getitem :: "IWSLTDataset \<Rightarrow> int \<Rightarrow> error + (ustring list, int) IWSLTExample" where
  "getitem ds index =
     and_then (subscript (src_text ds) index) (\<lambda>src_line.
     let src_sentence = split (rstrip_newline src_line)
     in and_then (subscript (tgt_text ds) index) (\<lambda>tgt_line.
        let tgt_sentence = split (rstrip_newline tgt_line)
        in Inr \<lparr>src = src_sentence, tgt = tgt_sentence, src_lengths = 0, tgt_lengths = 0\<rparr>))"

text \<open>
  Tensors of integers carry their element type. \<^verbatim>\<open>torch.tensor(rows).long()\<close> holds 64-bit
  entries (vocabulary indices, taken as they are), and \<^verbatim>\<open>.int()\<close> narrows every entry to
  32 bits, which wraps around outside the signed 32-bit range.
\<close>

datatype dtype = Int32 | Int64

datatype tensor = Tensor1 dtype "int list" | Tensor2 dtype "int list list"

definition to_int32 :: "int \<Rightarrow> int" where
  "to_int32 x = sint (word_of_int x :: 32 word)"

text \<open>
  \<^verbatim>\<open>IWSLTDataloader.collate_fn\<close>; \<^verbatim>\<open>self.src_vocab\<close> and \<^verbatim>\<open>self.tgt_vocab\<close> are arguments.
  A batch is a list of the examples that \<^verbatim>\<open>__getitem__\<close> returns, whose sentences are token
  lists.
\<close>

definition collate_fn ::
  "settings \<Rightarrow> vocab \<Rightarrow> vocab \<Rightarrow> (ustring list, 'l) IWSLTExample list \<Rightarrow> (tensor, tensor) IWSLTExample" where
  "collate_fn cfg s_vocab t_vocab batch =
     (let (src_p, src_lens) =
            pad_to_same_length (map src batch) (EOS_WORD cfg) None (Some (EOS_WORD cfg));
          (tgt_p, tgt_lens) =
            pad_to_same_length (map tgt batch) (EOS_WORD cfg) (Some (BOS_WORD cfg)) (Some (EOS_WORD cfg));
          src_t = Tensor2 Int64 (numerize s_vocab src_p);
          tgt_t = Tensor2 Int64 (numerize t_vocab tgt_p);
          src_lens_t = Tensor1 Int32 (map to_int32 src_lens);
          tgt_lens_t = Tensor1 Int32 (map to_int32 tgt_lens)
      in \<lparr>src = src_t, tgt = tgt_t, src_lengths = src_lens_t, tgt_lengths = tgt_lens_t\<rparr>)"

text \<open>
  \<^verbatim>\<open>IWSLTExample.to\<close> works on whatever the four attributes hold: a token list, an
  integer or a tensor. Only a tensor has a method \<^verbatim>\<open>to\<close>; torch's \<^verbatim>\<open>Tensor.to\<close> is the
  argument \<open>tensor_to\<close>. Each statement assigns its attribute once the call on the right
  has returned, the method returns nothing, and the example is returned as the statements
  executed so far have left it.
\<close>

datatype 't pyval = Tokens "ustring list" | IntVal int | TensorVal 't

definition call_to :: "('kw \<Rightarrow> 't \<Rightarrow> env_error + 't) \<Rightarrow> 'kw \<Rightarrow> 't pyval \<Rightarrow> error + 't pyval" where
  "call_to tensor_to kwargs v =
     (case v of
        TensorVal t \<Rightarrow> and_then (from_env (tensor_to kwargs t)) (\<lambda>t'. Inr (TensorVal t'))
      | _ \<Rightarrow> Inl AttributeError)"

definition to ::
  "('kw \<Rightarrow> 't \<Rightarrow> env_error + 't) \<Rightarrow> 'kw \<Rightarrow> ('t pyval, 't pyval) IWSLTExample \<Rightarrow>
     error option \<times> ('t pyval, 't pyval) IWSLTExample" where
  "to tensor_to kwargs ex =
     (case call_to tensor_to kwargs (src ex) of
        Inl e \<Rightarrow> (Some e, ex)
      | Inr v1 \<Rightarrow>
          (let ex1 = ex\<lparr>src := v1\<rparr>
           in case call_to tensor_to kwargs (tgt ex1) of
                Inl e \<Rightarrow> (Some e, ex1)
              | Inr v2 \<Rightarrow>
                  (let ex2 = ex1\<lparr>tgt := v2\<rparr>
                   in case call_to tensor_to kwargs (src_lengths ex2) of
                        Inl e \<Rightarrow> (Some e, ex2)
                      | Inr v3 \<Rightarrow>
                          (let ex3 = ex2\<lparr>src_lengths := v3\<rparr>
                           in case call_to tensor_to kwargs (tgt_lengths ex3) of
                                Inl e \<Rightarrow> (Some e, ex3)
                              | Inr v4 \<Rightarrow> (None, ex3\<lparr>tgt_lengths := v4\<rparr>)))))"



section \<open>model/agent.py\<close>

text \<open>
  A two-dimensional integer tensor of shape \<open>[bsz, len]\<close> is the list of its rows.
  \<^verbatim>\<open>t[:, :-1]\<close> drops the last column and \<^verbatim>\<open>t[:, 1:]\<close> the first one; on a tensor
  without columns both slices are empty, which is what \<open>butlast\<close> and \<open>tl\<close> give on \<open>[]\<close>.
  \<^verbatim>\<open>t.size(1)\<close> is read off the first row (the model has no tensor with zero rows and
  a positive number of columns).
\<close>

definition drop_last_col :: "'a list list \<Rightarrow> 'a list list" where
  "drop_last_col t = map butlast t"

definition drop_first_col :: "'a list list \<Rightarrow> 'a list list" where
  "drop_first_col t = map tl t"

definition size1 :: "'a list list \<Rightarrow> nat" where
  "size1 t = (case t of [] \<Rightarrow> 0 | r # _ \<Rightarrow> length r)"

text \<open>
  Modelled from the spec: \<^verbatim>\<open>sequence_mask\<close> of \<^verbatim>\<open>ld_research.model.utils\<close> is not among
  the sources. The spec gives a mask of shape \<open>[batch, max_len]\<close> in which position \<open>j\<close> of
  row \<open>i\<close> is valid iff \<open>j < lengths[i]\<close>.
\<close>

definition sequence_mask :: "int list \<Rightarrow> nat \<Rightarrow> bool list list" where
  "sequence_mask lengths max_len = map (\<lambda>l. map (\<lambda>j. int j < l) [0..<max_len]) lengths"

text \<open>
  \<^verbatim>\<open>.float()\<close> turns a boolean mask into \<open>1.0\<close> and \<open>0.0\<close>, both exact, and
  \<^verbatim>\<open>.to(device=d)\<close> places the tensor on \<open>d\<close> without touching its entries.
\<close>

record 'dev float_tensor =
  entries :: "real list list"
  on_device :: 'dev

definition float_on :: "bool list list \<Rightarrow> 'dev \<Rightarrow> 'dev float_tensor" where
  "float_on m d = \<lparr>entries = map (map (\<lambda>b. if b then 1 else 0)) m, on_device = d\<rparr>"

text \<open>
  The encoder and decoder (\<^verbatim>\<open>ld_research.model.grus\<close>) and torch's \<^verbatim>\<open>log_softmax\<close> are
  not among the sources; an agent carries them as functions. Floating-point scores are
  an arbitrary type \<open>'f\<close>: \<^verbatim>\<open>log_softmax(logits, dim=-1)\<close> applies one function to every
  innermost vector. \<open>device\<close> is the device of the first parameter.
\<close>

record ('f, 'st, 'mem, 'al, 'dev) Agent =
  encode :: "int list list \<Rightarrow> 'st \<times> 'mem"
  teacher_forcing :: "int list list \<Rightarrow> 'mem \<Rightarrow> 'st \<Rightarrow> int list option \<Rightarrow> 'f list list list \<times> 'al"
  log_softmax :: "'f list \<Rightarrow> 'f list"
  device :: 'dev

text \<open>The returned tuple has three elements, or four when alignments are asked for.\<close>

datatype ('f, 'al, 'dev) outputs =
    Triple "'f list list list" "int list list" "'dev float_tensor"
  | Quad "'f list list list" "int list list" "'dev float_tensor" 'al

text \<open>
  \<^verbatim>\<open>Agent.forward\<close>. \<open>masks\<close> is \<open>None\<close> when no target lengths are given, and the next
  statement calls \<^verbatim>\<open>masks.float()\<close> on it whatever it is.
\<close>

definition forward ::
  "('f, 'st, 'mem, 'al, 'dev) Agent \<Rightarrow> int list list \<Rightarrow> int list list \<Rightarrow> int list option \<Rightarrow>
     int list option \<Rightarrow> bool \<Rightarrow> error + ('f, 'al, 'dev) outputs" where
  "forward ag src_b tgt_b src_lens tgt_lens with_align =
     (let (states, memory) = encode ag src_b;
          tgt_in = drop_last_col tgt_b;
          (logits, alignments) = teacher_forcing ag tgt_in memory states src_lens;
          tgt_out = drop_first_col tgt_b;
          masks = (case tgt_lens of
                     None \<Rightarrow> None
                   | Some ls \<Rightarrow> Some (sequence_mask (map (\<lambda>l. l - 1) ls) (size1 logits)))
      in case masks of
           None \<Rightarrow> Inl AttributeError
         | Some m \<Rightarrow>
             (let masks' = float_on m (device ag);
                  logprobs = map (map (log_softmax ag)) logits
              in Inr (if with_align then Quad logprobs tgt_out masks' alignments
                      else Triple logprobs tgt_out masks')))"

section \<open>text/preprocess.py\<close>

text \<open>
  The preprocessing works on the world: the file system, the messages logged and the
  programs and library routines started, in the order they happened, and the two class
  attributes of torchtext's \<^verbatim>\<open>IWSLT\<close> that the download helper assigns.
\<close>

datatype event =
    Info string
  | Call "string list"
  | Download string string
  | Clean string

record 'fs world =
  files :: 'fs
  events :: "event list"
  IWSLT_dirname :: string
  IWSLT_urls :: "string list"

text \<open>
  A procedure returns \<open>None\<close> when it returns normally and the exception otherwise,
  together with the world as it has left it.
\<close>

type_synonym 'fs proc = "'fs world \<Rightarrow> error option \<times> 'fs world"

definition returns :: "'fs proc" where
  "returns w = (None, w)"

definition raise :: "error \<Rightarrow> 'fs proc" where
  "raise e w = (Some e, w)"

definition seq :: "'fs proc \<Rightarrow> 'fs proc \<Rightarrow> 'fs proc" where
  "seq p q w = (case p w of (None, w') \<Rightarrow> q w' | (Some e, w') \<Rightarrow> (Some e, w'))"

fun for_each :: "('a \<Rightarrow> 'fs proc) \<Rightarrow> 'a list \<Rightarrow> 'fs proc" where
  "for_each body [] w = (None, w)"
| "for_each body (x # xs) w =
     (case body x w of (None, w') \<Rightarrow> for_each body xs w' | (Some e, w') \<Rightarrow> (Some e, w'))"

definition if_exists :: "'fs env \<Rightarrow> string \<Rightarrow> 'fs proc \<Rightarrow> 'fs proc \<Rightarrow> 'fs proc" where
  "if_exists env p yes no w = (if path_exists env p (files w) then yes w else no w)"

definition LOGGER_info :: "string \<Rightarrow> 'fs proc" where
  "LOGGER_info msg w = (None, w\<lparr>events := events w @ [Info msg]\<rparr>)"

definition on_files :: "('fs \<Rightarrow> env_error option \<times> 'fs) \<Rightarrow> 'fs proc" where
  "on_files operation w =
     (case operation (files w) of
        (None, f) \<Rightarrow> (None, w\<lparr>files := f\<rparr>)
      | (Some e, f) \<Rightarrow> (Some (EnvError e), w\<lparr>files := f\<rparr>))"

definition call :: "'fs env \<Rightarrow> string list \<Rightarrow> 'fs proc" where
  "call env argv w = on_files (subprocess_call env argv) (w\<lparr>events := events w @ [Call argv]\<rparr>)"

text \<open>\<^verbatim>\<open>str\<close> of an integer.\<close>

fun str_nat :: "nat \<Rightarrow> string" where
  "str_nat n =
     (if n < 10 then [char_of (48 + n)] else str_nat (n div 10) @ [char_of (48 + n mod 10)])"

definition str :: "int \<Rightarrow> string" where
  "str i = (if i < 0 then CHR ''-'' # str_nat (nat (- i)) else str_nat (nat i))"

text \<open>
  \<^verbatim>\<open>'{}-{}'.format(a, b)\<close> and the other templates written out in the source are
  concatenations: the arguments are strings, and what they contain is not read as a
  template.
\<close>

definition IWSLT_download_helper :: "'fs env \<Rightarrow> settings \<Rightarrow> string \<Rightarrow> string \<Rightarrow> 'fs proc" where
  "IWSLT_download_helper env cfg s_lang t_lang =
     (let corpus_dir = join (ROOT_CORPUS_DIR cfg)
                         [IWSLT_name env, IWSLT_base_dirname env (drop 1 s_lang) (drop 1 t_lang)]
      in if_exists env corpus_dir
           (LOGGER_info (''iwslt '' @ drop 1 s_lang @ ''-'' @ drop 1 t_lang @ '' exists, skipping...''))
           (seq (LOGGER_info (''downloading in '' @ corpus_dir @ ''...''))
           (seq (\<lambda>w. (None, w\<lparr>IWSLT_dirname := IWSLT_base_dirname env (drop 1 s_lang) (drop 1 t_lang)\<rparr>))
           (seq (\<lambda>w. (None, w\<lparr>IWSLT_urls :=
                        [IWSLT_base_url env (drop 1 s_lang) (drop 1 t_lang) (IWSLT_dirname w)]\<rparr>))
           (seq (\<lambda>w. on_files (IWSLT_download env (IWSLT_dirname w) (IWSLT_urls w)
                                 (ROOT_CORPUS_DIR cfg) corpus_dir)
                        (w\<lparr>events := events w @ [Download (ROOT_CORPUS_DIR cfg) corpus_dir]\<rparr>))
                (\<lambda>w. on_files (IWSLT_clean env corpus_dir)
                        (w\<lparr>events := events w @ [Clean corpus_dir]\<rparr>)))))))"

text \<open>
  \<^verbatim>\<open>_tokenize\<close>: the output file is opened (and emptied) before the input file is, and
  both are closed on every way out. The words of a line are joined by a space (code
  point 32), with a line feed (code point 10) as the last of them.
\<close>

definition tokenize :: "'fs env \<Rightarrow> string \<Rightarrow> string \<Rightarrow> 'fs proc" where
  "tokenize env in_file out_file =
     (case get_tokenizer env of
        Inl e \<Rightarrow> raise (EnvError e)
      | Inr moses_tokenzer \<Rightarrow>
          seq (on_files (open_write env out_file))
          (\<lambda>w. case open_read env in_file (files w) of
                  Some e \<Rightarrow> (Some (EnvError e), w)
                | None \<Rightarrow>
                    seq (LOGGER_info (''tokenizing '' @ basename in_file @ ''...''))
                      (\<lambda>w. case readlines env in_file (files w) of
                              Inl e \<Rightarrow> (Some (EnvError e), w)
                            | Inr lines \<Rightarrow>
                                for_each
                                  (\<lambda>line. on_files (write_text env out_file
                                     (join_with [32] (moses_tokenzer (lower env line) @ [[10]]))))
                                  lines w)
                      w))"

definition tokenize_IWSLT_helper :: "'fs env \<Rightarrow> settings \<Rightarrow> string \<Rightarrow> string \<Rightarrow> 'fs proc" where
  "tokenize_IWSLT_helper env cfg s_lang t_lang =
     (let token_dir = join (ROOT_TOK_DIR cfg)
                        [IWSLT_name env, IWSLT_base_dirname env (drop 1 s_lang) (drop 1 t_lang)]
      in if_exists env token_dir
           (LOGGER_info (token_dir @ '' exists, skipping...''))
           (seq (on_files (makedirs env token_dir))
              (let corpus_dir = join (ROOT_CORPUS_DIR cfg)
                                  [IWSLT_name env, IWSLT_base_dirname env (drop 1 s_lang) (drop 1 t_lang)];
                   suffixs = [drop 1 s_lang @ ''-'' @ drop 1 t_lang @ s_lang,
                              drop 1 s_lang @ ''-'' @ drop 1 t_lang @ t_lang];
                   prefixs = [''train'', ''IWSLT16.TED.tst2013'', ''IWSLT16.TED.tst2014'']
               in for_each
                    (\<lambda>(pre, suffix). tokenize env (join corpus_dir [pre @ ''.'' @ suffix])
                                        (join token_dir [pre @ ''.'' @ suffix]))
                    (List.product prefixs suffixs))))"

definition download_multi30k :: "'fs env \<Rightarrow> settings \<Rightarrow> 'fs proc" where
  "download_multi30k env cfg =
     (let corpus_dir = join (ROOT_CORPUS_DIR cfg) [''multi30k'']
      in if_exists env corpus_dir
           (LOGGER_info ''multi30k exists, skipping...'')
           (seq (LOGGER_info ''Downloading multi30k task1...'')
              (let prefixs = [''train'', ''val'', ''test_2017_flickr''];
                   langs = [FR cfg, EN cfg, DE cfg]
               in for_each
                    (\<lambda>(pre, lang).
                       seq (call env [''wget'',
                              ''https://github.com/multi30k/dataset/raw/master/data/task1/raw/''
                                @ pre @ lang @ ''.gz'',
                              ''-P'', corpus_dir])
                           (call env [''gunzip'', ''-k'', join corpus_dir [pre @ lang @ ''.gz'']]))
                    (List.product prefixs langs))))"

definition prepare_IWSLT :: "'fs env \<Rightarrow> settings \<Rightarrow> 'fs proc" where
  "prepare_IWSLT env cfg =
     seq (IWSLT_download_helper env cfg (FR cfg) (EN cfg))
    (seq (IWSLT_download_helper env cfg (EN cfg) (DE cfg))
    (seq (tokenize_IWSLT_helper env cfg (FR cfg) (EN cfg))
         (tokenize_IWSLT_helper env cfg (EN cfg) (DE cfg))))"

definition prepare_multi30k :: "'fs env \<Rightarrow> settings \<Rightarrow> 'fs proc" where
  "prepare_multi30k env cfg =
     seq (download_multi30k env cfg)
       (let corpus_dir = join (ROOT_CORPUS_DIR cfg) [''multi30k''];
            prefixs = [''train'', ''val'', ''test_2017_flickr''];
            langs = [FR cfg, EN cfg, DE cfg];
            tok_dir = join (ROOT_TOK_DIR cfg) [''multi30k'']
        in if_exists env tok_dir
             (LOGGER_info ''multi30k tokens exists, skipping...'')
             (seq (LOGGER_info ''Tokenizing multi30k task1...'')
             (seq (on_files (makedirs env tok_dir))
                  (for_each
                     (\<lambda>(pre, lang). tokenize env (join corpus_dir [pre @ lang]) (join tok_dir [pre @ lang]))
                     (List.product prefixs langs)))))"

text \<open>
  A dictionary display keeps the first position of a repeated key and its last value;
  iterating over the keys follows the order of insertion.
\<close>

fun dict_set :: "('k \<times> 'v) list \<Rightarrow> 'k \<Rightarrow> 'v \<Rightarrow> ('k \<times> 'v) list" where
  "dict_set [] k v = [(k, v)]"
| "dict_set ((k', v') # d) k v = (if k' = k then (k, v) # d else (k', v') # dict_set d k v)"

definition dict_of :: "('k \<times> 'v) list \<Rightarrow> ('k \<times> 'v) list" where
  "dict_of items = foldl (\<lambda>d (k, v). dict_set d k v) [] items"

definition dict_keys :: "('k \<times> 'v) list \<Rightarrow> 'k list" where
  "dict_keys d = map fst d"

definition lookups :: "('k \<times> 'v) list \<Rightarrow> 'k list \<Rightarrow> 'v list" where
  "lookups d ks = concat (map (\<lambda>k. case map_of d k of Some v \<Rightarrow> [v] | None \<Rightarrow> []) ks)"

definition learn_bpe :: "'fs env \<Rightarrow> settings \<Rightarrow> 'fs proc" where
  "learn_bpe env cfg =
     seq (if_exists env (ROOT_BPE_DIR cfg) returns (on_files (makedirs env (ROOT_BPE_DIR cfg))))
       (let lang_files = dict_of
              [(EN cfg, join (ROOT_TOK_DIR cfg) [''iwslt'', ''en-de'', ''train.en-de.en'']),
               (DE cfg, join (ROOT_TOK_DIR cfg) [''iwslt'', ''en-de'', ''train.en-de.de'']),
               (FR cfg, join (ROOT_TOK_DIR cfg) [''iwslt'', ''fr-en'', ''train.fr-en.fr''])]
        in if_exists env (join (ROOT_BPE_DIR cfg) [''bpe.codes''])
             (LOGGER_info ''bpe.codes file exist, skipping...'')
             (let learn_bpe_cmd =
                    [PYTHONBIN cfg, LEARN_JOINT_BPE cfg]
                    @ [''--input''] @ lookups lang_files (dict_keys lang_files)
                    @ [''-s'', ''10000'']
                    @ [''-o'', join (ROOT_BPE_DIR cfg) [''bpe.codes'']]
                    @ [''--write-vocabulary'']
                    @ map (\<lambda>lang. join (ROOT_BPE_DIR cfg) [''vocab'' @ lang]) (dict_keys lang_files)
              in seq (LOGGER_info ''Learning BPE on joint language...'') (call env learn_bpe_cmd)))"

definition apply_bpe :: "'fs env \<Rightarrow> settings \<Rightarrow> string \<Rightarrow> string \<Rightarrow> string \<Rightarrow> 'fs proc" where
  "apply_bpe env cfg in_file out_file lang =
     (let codes_file = join (ROOT_BPE_DIR cfg) [''bpe.codes'']
      in if_exists env codes_file
           (let vocab_file = join (ROOT_BPE_DIR cfg) [''vocab'' @ lang];
                cmd = [PYTHONBIN cfg, APPLY_BPE cfg]
                      @ [''-c'', codes_file]
                      @ [''--vocabulary'', vocab_file]
                      @ [''--vocabulary-threshold'', str (MIN_FREQ cfg)]
                      @ [''--input'', in_file]
                      @ [''--output'', out_file]
            in seq (LOGGER_info (''Applying BPE to '' @ basename out_file)) (call env cmd))
           (raise AssertionError))"

definition apply_bpe_iwslt :: "'fs env \<Rightarrow> settings \<Rightarrow> string \<Rightarrow> string \<Rightarrow> 'fs proc" where
  "apply_bpe_iwslt env cfg s_lang t_lang =
     (let bpe_dir = join (ROOT_BPE_DIR cfg)
                      [IWSLT_name env, IWSLT_base_dirname env (drop 1 s_lang) (drop 1 t_lang)]
      in if_exists env bpe_dir
           (LOGGER_info (''BPE IWSLT for '' @ drop 1 s_lang @ ''-'' @ drop 1 t_lang @ '' exists, skipping...''))
           (seq (on_files (makedirs env bpe_dir))
              (let tok_dir = join (ROOT_TOK_DIR cfg)
                               [IWSLT_name env, IWSLT_base_dirname env (drop 1 s_lang) (drop 1 t_lang)];
                   suffixs = [drop 1 s_lang @ ''-'' @ drop 1 t_lang @ s_lang,
                              drop 1 s_lang @ ''-'' @ drop 1 t_lang @ t_lang];
                   prefixs = [''train'', ''IWSLT16.TED.tst2013'', ''IWSLT16.TED.tst2014'']
               in for_each
                    (\<lambda>(pre, suffix). apply_bpe env cfg (join tok_dir [pre @ ''.'' @ suffix])
                                        (join bpe_dir [pre @ ''.'' @ suffix])
                                        (drop (length suffix - 3) suffix))
                    (List.product prefixs suffixs))))"

definition apply_bpe_multi30k :: "'fs env \<Rightarrow> settings \<Rightarrow> 'fs proc" where
  "apply_bpe_multi30k env cfg =
     (let bpe_dir = join (ROOT_BPE_DIR cfg) [''multi30k'']
      in if_exists env bpe_dir
           (LOGGER_info ''BPE Multi30k exists, skipping...'')
           (seq (on_files (makedirs env bpe_dir))
              (let tok_dir = join (ROOT_TOK_DIR cfg) [''multi30k''];
                   prefixs = [''train'', ''val'', ''test_2017_flickr''];
                   langs = [FR cfg, EN cfg, DE cfg]
               in for_each
                    (\<lambda>(pre, lang). apply_bpe env cfg (join tok_dir [pre @ lang])
                                      (join bpe_dir [pre @ lang]) lang)
                    (List.product prefixs langs))))"

section \<open>Stripping and splitting a line in the words of the spec\<close>

text \<open>
  These definitions do not use the functions above. \<open>whitespace\<close> is the set of the
  whitespace code points, by ranges. \<open>stripped_of line s\<close> says that \<open>s\<close> is \<open>line\<close> without
  its trailing line feeds: \<open>s\<close> does not end in a line feed and \<open>line\<close> is \<open>s\<close> followed by
  line feeds only. \<open>cut_at gaps line ws\<close> says that \<open>ws\<close> are the words of \<open>line\<close>, with
  \<open>gaps\<close> the whitespace around them: the line is the first gap, the first word, the
  second gap, and so on up to the last gap; the gaps hold whitespace only and those
  between two words are not empty; the words are not empty and hold no whitespace.
\<close>

definition whitespace :: "int set" where
  "whitespace = {9..13} \<union> {28..32} \<union> {133, 160, 5760} \<union> {8192..8202}
                  \<union> {8232, 8233, 8239, 8287, 12288}"

definition stripped_of :: "ustring \<Rightarrow> ustring \<Rightarrow> bool" where
  "stripped_of line s =
     ((s = [] \<or> last s \<noteq> 10) \<and> line = s @ replicate (length line - length s) 10)"

fun weave :: "ustring list \<Rightarrow> ustring list \<Rightarrow> ustring" where
  "weave gaps [] = concat gaps"
| "weave [] (w # ws) = w @ weave [] ws"
| "weave (g # gaps) (w # ws) = g @ w @ weave gaps ws"

definition cut_at :: "ustring list \<Rightarrow> ustring \<Rightarrow> ustring list \<Rightarrow> bool" where
  "cut_at gaps line ws =
     (length gaps = Suc (length ws)
      \<and> (\<forall>g\<in>set gaps. \<forall>c\<in>set g. c \<in> whitespace)
      \<and> (\<forall>g\<in>set (butlast (tl gaps)). g \<noteq> [])
      \<and> (\<forall>w\<in>set ws. w \<noteq> [] \<and> (\<forall>c\<in>set w. c \<notin> whitespace))
      \<and> line = weave gaps ws)"

section \<open>The layout of the corpus in the words of the spec\<close>

text \<open>
  The spec names files as \<^verbatim>\<open><dir>/<name>\<close>: \<open>under_dir d name\<close> is that path, with no second
  separator when \<open>d\<close> already ends in one. The ISO code of a language is its code without
  the leading marker character. A language code is plain when it has no path separator
  and no brace in it, as \<^verbatim>\<open>.en\<close>, \<^verbatim>\<open>.de\<close> and \<^verbatim>\<open>.fr\<close> are.
\<close>

definition under_dir :: "string \<Rightarrow> string \<Rightarrow> string" where
  "under_dir d name = (if d = [] \<or> last d = CHR ''/'' then d @ name else d @ ''/'' @ name)"

definition iso_code :: "string \<Rightarrow> string" where
  "iso_code lang = drop 1 lang"

definition plain_code :: "string \<Rightarrow> bool" where
  "plain_code lang = (\<forall>c\<in>set lang. c \<noteq> CHR ''/'' \<and> c \<noteq> CHR ''{'' \<and> c \<noteq> CHR ''}'')"

definition spec_corpus_dir :: "settings \<Rightarrow> string \<Rightarrow> string \<Rightarrow> string" where
  "spec_corpus_dir cfg s_lang t_lang =
     under_dir (under_dir (ROOT_BPE_DIR cfg) ''iwslt'') (iso_code s_lang @ ''-'' @ iso_code t_lang)"

definition spec_prefix :: "string \<Rightarrow> string" where
  "spec_prefix md =
     (if md = ''train'' then ''train''
      else if md = ''valid'' then ''IWSLT16.TED.tst2013''
      else ''IWSLT16.TED.tst2014'')"

definition spec_file :: "settings \<Rightarrow> string \<Rightarrow> string \<Rightarrow> string \<Rightarrow> string \<Rightarrow> string" where
  "spec_file cfg s_lang t_lang md lang =
     under_dir (spec_corpus_dir cfg s_lang t_lang)
       (spec_prefix md @ ''.'' @ iso_code s_lang @ ''-'' @ iso_code t_lang @ lang)"

text \<open>
  The two command lines in the words of the spec: the learner is given the English,
  German and French training files, 10000 merge operations, the codes file to write and
  one vocabulary file per language; the applier is given the codes file, the vocabulary
  file of the language, the frequency threshold, the input and the output file.
\<close>

definition spec_learn_cmd :: "settings \<Rightarrow> string list" where
  "spec_learn_cmd cfg =
     [PYTHONBIN cfg, LEARN_JOINT_BPE cfg,
      ''--input'',
      join (ROOT_TOK_DIR cfg) [''iwslt'', ''en-de'', ''train.en-de.en''],
      join (ROOT_TOK_DIR cfg) [''iwslt'', ''en-de'', ''train.en-de.de''],
      join (ROOT_TOK_DIR cfg) [''iwslt'', ''fr-en'', ''train.fr-en.fr''],
      ''-s'', ''10000'',
      ''-o'', join (ROOT_BPE_DIR cfg) [''bpe.codes''],
      ''--write-vocabulary'',
      join (ROOT_BPE_DIR cfg) [''vocab'' @ EN cfg],
      join (ROOT_BPE_DIR cfg) [''vocab'' @ DE cfg],
      join (ROOT_BPE_DIR cfg) [''vocab'' @ FR cfg]]"

definition spec_apply_cmd :: "settings \<Rightarrow> string \<Rightarrow> string \<Rightarrow> string \<Rightarrow> string list" where
  "spec_apply_cmd cfg in_file out_file lang =
     [PYTHONBIN cfg, APPLY_BPE cfg,
      ''-c'', join (ROOT_BPE_DIR cfg) [''bpe.codes''],
      ''--vocabulary'', join (ROOT_BPE_DIR cfg) [''vocab'' @ lang],
      ''--vocabulary-threshold'', str (MIN_FREQ cfg),
      ''--input'', in_file,
      ''--output'', out_file]"

section \<open>A small environment to run the definitions in\<close>

text \<open>
  The theorems below hold for every environment. To run the definitions on concrete
  inputs, this one keeps the file system in memory as a list of paths with what is there:
  a directory or a text file with its lines. External programs leave it alone. The
  vocabulary of a language is read from \<^verbatim>\<open>/data/bpe/vocab<lang>\<close>, one token per line, and
  a missing file is a configuration error, as the spec words it; in \<open>asserting_env\<close> it
  is a failed assertion instead.
\<close>

datatype node = Dir | File "ustring list"

definition mem_open_read :: "string \<Rightarrow> (string \<times> node) list \<Rightarrow> env_error option" where
  "mem_open_read p fs =
     (case map_of fs p of
        None \<Rightarrow> Some FileNotFoundError
      | Some Dir \<Rightarrow> Some IsADirectoryError
      | Some (File ls) \<Rightarrow> None)"

definition mem_readlines :: "string \<Rightarrow> (string \<times> node) list \<Rightarrow> env_error + ustring list" where
  "mem_readlines p fs =
     (case map_of fs p of
        None \<Rightarrow> Inl FileNotFoundError
      | Some Dir \<Rightarrow> Inl IsADirectoryError
      | Some (File ls) \<Rightarrow> Inr ls)"

definition mem_load_vocab :: "string \<Rightarrow> (string \<times> node) list \<Rightarrow> error + vocab" where
  "mem_load_vocab lang fs =
     (case map_of fs (''/data/bpe/vocab'' @ lang) of
        Some (File ls) \<Rightarrow>
          Inr \<lparr>vocab_lang = lang, stoi = zip ls (map int [0..<length ls]), unk_index = int (length ls)\<rparr>
      | _ \<Rightarrow> Inl ConfigurationError)"


definition mem_exists :: "string \<Rightarrow> (string \<times> node) list \<Rightarrow> bool" where
  "mem_exists p fs = (map_of fs p \<noteq> None)"

definition mem_makedirs :: "string \<Rightarrow> (string \<times> node) list \<Rightarrow> env_error option \<times> (string \<times> node) list" where
  "mem_makedirs p fs = (if mem_exists p fs then (Some FileExistsError, fs) else (None, (p, Dir) # fs))"

definition mem_open_write :: "string \<Rightarrow> (string \<times> node) list \<Rightarrow> env_error option \<times> (string \<times> node) list" where
  "mem_open_write p fs = (None, (p, File []) # fs)"

definition mem_write :: "string \<Rightarrow> ustring \<Rightarrow> (string \<times> node) list \<Rightarrow> env_error option \<times> (string \<times> node) list" where
  "mem_write p txt fs =
     (None, (p, File ((case map_of fs p of Some (File ls) \<Rightarrow> ls | _ \<Rightarrow> []) @ [txt])) # fs)"

definition mem_call :: "string list \<Rightarrow> (string \<times> node) list \<Rightarrow> env_error option \<times> (string \<times> node) list" where
  "mem_call argv fs = (None, fs)"

definition mem_dirname :: "string \<Rightarrow> string \<Rightarrow> string" where
  "mem_dirname a b = a @ ''-'' @ b"

definition mem_url :: "string \<Rightarrow> string \<Rightarrow> string \<Rightarrow> string" where
  "mem_url a b d = ''https://wit3.fbk.eu/archive/2016-01//texts/'' @ a @ ''/'' @ b @ ''/'' @ d @ ''.tgz''"

definition mem_download ::
  "string \<Rightarrow> string list \<Rightarrow> string \<Rightarrow> string \<Rightarrow> (string \<times> node) list \<Rightarrow> env_error option \<times> (string \<times> node) list" where
  "mem_download d urls root_dir check fs = (None, (check, Dir) # fs)"

definition mem_clean :: "string \<Rightarrow> (string \<times> node) list \<Rightarrow> env_error option \<times> (string \<times> node) list" where
  "mem_clean p fs = (None, fs)"

definition mem_env :: "(string \<times> node) list env" where
  "mem_env =
     \<lparr>open_read = mem_open_read, readlines = mem_readlines, load_vocab = mem_load_vocab,
      path_exists = mem_exists, makedirs = mem_makedirs, open_write = mem_open_write,
      write_text = mem_write, subprocess_call = mem_call, get_tokenizer = Inr split, lower = id,
      IWSLT_name = ''iwslt'', IWSLT_base_dirname = mem_dirname, IWSLT_base_url = mem_url,
      IWSLT_download = mem_download, IWSLT_clean = mem_clean\<rparr>"


definition example_settings :: settings where
  "example_settings =
     \<lparr>ROOT_CORPUS_DIR = ''/data/corpus'', ROOT_TOK_DIR = ''/data/tok'', ROOT_BPE_DIR = ''/data/bpe'',
      FR = ''.fr'', EN = ''.en'', DE = ''.de'', BOS_WORD = text_of ''<s>'', EOS_WORD = text_of ''</s>'',
      PYTHONBIN = ''python'', LEARN_JOINT_BPE = ''learn_joint_bpe_and_vocab.py'',
      APPLY_BPE = ''apply_bpe.py'', MIN_FREQ = 5\<rparr>"

text \<open>
  A file system after preprocessing English to German, with a two-line training split.
  The first English line is \<^verbatim>\<open> a<TAB> cat<U+3000>sat \<close> followed by a line feed; the last
  line of either file has no line feed.
\<close>

definition example_files :: "(string \<times> node) list" where
  "example_files =
     [(''/data/bpe'', Dir),
      (''/data/bpe/bpe.codes'', File []),
      (''/data/bpe/vocab.en'', File (map text_of [''<s>'', ''</s>'', ''a'', ''cat''])),
      (''/data/bpe/vocab.de'', File (map text_of [''<s>'', ''</s>'', ''eine'', ''katze''])),
      (''/data/bpe/iwslt/en-de'', Dir),
      (''/data/bpe/iwslt/en-de/train.en-de.en'',
         File [text_of '' a'' @ [9, 32] @ text_of ''cat'' @ [12288] @ text_of ''sat '' @ [10],
               text_of ''cat'']),
      (''/data/bpe/iwslt/en-de/train.en-de.de'',
         File [text_of ''eine katze'' @ [10], text_of ''katze''])]"

definition example_world :: "(string \<times> node) list world" where
  "example_world = \<lparr>files = example_files, events = [], IWSLT_dirname = [], IWSLT_urls = []\<rparr>"




text \<open>
  The dataset that the constructor builds from \<open>example_files\<close>, a batch of two examples
  as \<^verbatim>\<open>__getitem__\<close> returns them, and a \<^verbatim>\<open>Tensor.to\<close> that returns the tensor it is
  given.
\<close>

definition example_dataset :: IWSLTDataset where
  "example_dataset =
     \<lparr>src_lang = ''.en'', tgt_lang = ''.de'', mode = ''train'',
      src_vocab = \<lparr>vocab_lang = ''.en'',
                   stoi = [(text_of ''<s>'', 0), (text_of ''</s>'', 1), (text_of ''a'', 2),
                           (text_of ''cat'', 3)],
                   unk_index = 4\<rparr>,
      tgt_vocab = \<lparr>vocab_lang = ''.de'',
                   stoi = [(text_of ''<s>'', 0), (text_of ''</s>'', 1), (text_of ''eine'', 2),
                           (text_of ''katze'', 3)],
                   unk_index = 4\<rparr>,
      bpe_corpus_dir = ''/data/bpe/iwslt/en-de'',
      src_text = [text_of '' a'' @ [9, 32] @ text_of ''cat'' @ [12288] @ text_of ''sat '' @ [10],
                  text_of ''cat''],
      tgt_text = [text_of ''eine katze'' @ [10], text_of ''katze'']\<rparr>"

definition example_batch :: "(ustring list, int) IWSLTExample list" where
  "example_batch =
     [\<lparr>src = map text_of [''a'', ''cat''], tgt = map text_of [''eine'', ''katze''],
       src_lengths = 0, tgt_lengths = 0\<rparr>,
      \<lparr>src = map text_of [''dog''], tgt = map text_of [''katze''],
       src_lengths = 0, tgt_lengths = 0\<rparr>]"


section \<open>Lemmas on the Python values\<close>

lemma and_then_Inl [simp]: "and_then (Inl e) f = Inl e"
  by (simp add: and_then_def)

lemma and_then_Inr [simp]: "and_then (Inr x) f = f x"
  by (simp add: and_then_def)

lemma and_then_eq_Inr:
  "and_then r f = Inr y \<longleftrightarrow> (\<exists>x. r = Inr x \<and> f x = Inr y)"
  by (cases r) simp_all


subsection \<open>Stripping and splitting a line\<close>

lemma isspace_whitespace: "isspace c \<longleftrightarrow> c \<in> whitespace"
proof
  assume "isspace c"
  then show "c \<in> whitespace"
    unfolding isspace_def whitespace_def by auto
next
  assume "c \<in> whitespace"
  then consider "9 \<le> c \<and> c \<le> 13" | "28 \<le> c \<and> c \<le> 32" | "c \<in> {133, 160, 5760}"
    | "8192 \<le> c \<and> c \<le> 8202" | "c \<in> {8232, 8233, 8239, 8287, 12288}"
    unfolding whitespace_def by auto
  then show "isspace c"
  proof cases
    case 1
    then have "c = 9 \<or> c = 10 \<or> c = 11 \<or> c = 12 \<or> c = 13" by arith
    then show ?thesis unfolding isspace_def by auto
  next
    case 2
    then have "c = 28 \<or> c = 29 \<or> c = 30 \<or> c = 31 \<or> c = 32" by arith
    then show ?thesis unfolding isspace_def by auto
  next
    case 3
    then show ?thesis unfolding isspace_def by auto
  next
    case 4
    then have "c = 8192 \<or> c = 8193 \<or> c = 8194 \<or> c = 8195 \<or> c = 8196 \<or> c = 8197
               \<or> c = 8198 \<or> c = 8199 \<or> c = 8200 \<or> c = 8201 \<or> c = 8202" by arith
    then show ?thesis unfolding isspace_def by auto
  next
    case 5
    then show ?thesis unfolding isspace_def by auto
  qed
qed

lemma split_from_takeWhile:
  "split_from word s =
     (if word @ takeWhile (\<lambda>c. \<not> isspace c) s = [] then []
      else [word @ takeWhile (\<lambda>c. \<not> isspace c) s])
     @ split_from [] (dropWhile (\<lambda>c. \<not> isspace c) s)"
proof (induction s arbitrary: word)
  case Nil
  then show ?case by simp
next
  case (Cons c cs)
  show ?case
  proof (cases "isspace c")
    case True
    then show ?thesis by simp
  next
    case False
    then show ?thesis using Cons.IH [of "word @ [c]"] by simp
  qed
qed

lemma split_skip: "split_from [] s = split_from [] (dropWhile isspace s)"
  by (induction s) simp_all

lemma split_white: "\<forall>c\<in>set g. isspace c \<Longrightarrow> split (g @ s) = split s"
  unfolding split_def by (induction g) simp_all

lemma split_word:
  assumes "w \<noteq> []" "\<forall>c\<in>set w. \<not> isspace c" "rest = [] \<or> isspace (hd rest)"
  shows "split (w @ rest) = w # split rest"
proof -
  have tw: "takeWhile (\<lambda>c. \<not> isspace c) (w @ rest) = w"
    using assms(2,3) by (cases rest) (simp_all add: takeWhile_append2 takeWhile_eq_all_conv)
  have dw: "dropWhile (\<lambda>c. \<not> isspace c) (w @ rest) = rest"
    using assms(2,3) by (cases rest) (simp_all add: dropWhile_append2 dropWhile_append3)
  show ?thesis
    unfolding split_def using assms(1)
    by (subst split_from_takeWhile) (simp add: tw dw)
qed


lemma butlast_tl_subset: "x \<in> set (butlast (tl xs)) \<Longrightarrow> x \<in> set (butlast xs)"
  by (cases xs) (auto split: if_splits)

lemma cut_at_isspace:
  "cut_at gaps line ws \<longleftrightarrow>
     length gaps = Suc (length ws)
     \<and> (\<forall>g\<in>set gaps. \<forall>c\<in>set g. isspace c)
     \<and> (\<forall>g\<in>set (butlast (tl gaps)). g \<noteq> [])
     \<and> (\<forall>w\<in>set ws. w \<noteq> [] \<and> (\<forall>c\<in>set w. \<not> isspace c))
     \<and> line = weave gaps ws"
  by (simp only: cut_at_def isspace_whitespace)

lemma cut_at_length: "cut_at gaps line ws \<Longrightarrow> length gaps = Suc (length ws)"
  unfolding cut_at_isspace by (rule conjunct1)

lemma cut_at_white: "cut_at gaps line ws \<Longrightarrow> g \<in> set gaps \<Longrightarrow> c \<in> set g \<Longrightarrow> isspace c"
  unfolding cut_at_isspace by blast

lemma cut_at_inner: "cut_at gaps line ws \<Longrightarrow> g \<in> set (butlast (tl gaps)) \<Longrightarrow> g \<noteq> []"
  unfolding cut_at_isspace by blast

lemma cut_at_words:
  "cut_at gaps line ws \<Longrightarrow> w \<in> set ws \<Longrightarrow> w \<noteq> [] \<and> (\<forall>c\<in>set w. \<not> isspace c)"
  unfolding cut_at_isspace by blast

lemma cut_at_line: "cut_at gaps line ws \<Longrightarrow> weave gaps ws = line"
  unfolding cut_at_isspace by blast

lemma cut_atI:
  assumes "length gaps = Suc (length ws)"
    and "\<And>g c. g \<in> set gaps \<Longrightarrow> c \<in> set g \<Longrightarrow> isspace c"
    and "\<And>g. g \<in> set (butlast (tl gaps)) \<Longrightarrow> g \<noteq> []"
    and "\<And>w. w \<in> set ws \<Longrightarrow> w \<noteq> [] \<and> (\<forall>c\<in>set w. \<not> isspace c)"
    and "weave gaps ws = line"
  shows "cut_at gaps line ws"
  unfolding cut_at_isspace using assms by blast

lemma takeWhile_hd: "xs \<noteq> [] \<Longrightarrow> P (hd xs) \<Longrightarrow> takeWhile P xs \<noteq> []"
  by (cases xs) auto

lemma split_nonempty: "split xs \<noteq> [] \<Longrightarrow> xs \<noteq> []"
  by (cases xs) (auto simp: split_def)

lemma split_cut_hd:
  "\<exists>gaps. cut_at gaps s (split s) \<and> hd gaps = takeWhile isspace s"
proof (induction "length s" arbitrary: s rule: less_induct)
  case less
  let ?g = "takeWhile isspace s" and ?s' = "dropWhile isspace s"
  have g: "\<forall>c\<in>set ?g. isspace c"
    by (auto dest: set_takeWhileD)
  have s: "s = ?g @ ?s'"
    by simp
  have split_s: "split s = split ?s'"
    using split_white [OF g, of ?s'] by simp
  show ?case
  proof (cases "?s' = []")
    case True
    have "split s = []"
      unfolding split_s True by (simp add: split_def)
    moreover have "s = ?g"
      using s True by (metis append_Nil2)
    ultimately have "cut_at [s] s (split s) \<and> hd [s] = ?g"
      using g by (auto simp: cut_at_def isspace_whitespace)
    then show ?thesis by blast
  next
    case False
    let ?w = "takeWhile (\<lambda>c. \<not> isspace c) ?s'" and ?r = "dropWhile (\<lambda>c. \<not> isspace c) ?s'"
    have "\<not> isspace (hd ?s')"
      using False by (rule hd_dropWhile)
    then have w: "?w \<noteq> []"
      using False by (cases ?s') auto
    have w_plain: "\<forall>c\<in>set ?w. \<not> isspace c"
      by (auto dest: set_takeWhileD)
    have r: "?r = [] \<or> isspace (hd ?r)"
      using hd_dropWhile [of "\<lambda>c. \<not> isspace c" ?s'] by auto
    have parts: "s = ?g @ ?w @ ?r"
      by simp
    have "length ?g + length ?s' = length s"
      by (metis length_append takeWhile_dropWhile_id)
    moreover have "length ?w + length ?r = length ?s'"
      by (metis length_append takeWhile_dropWhile_id)
    moreover have "0 < length ?w"
      using w by simp
    ultimately have "length ?r < length s"
      by linarith
    from less [OF this] obtain gaps where
      ih: "cut_at gaps ?r (split ?r)" and hd_gaps: "hd gaps = takeWhile isspace ?r"
      by blast
    have split_s': "split s = ?w # split ?r"
      using split_word [OF w w_plain r] split_s by simp
    have gaps: "gaps \<noteq> []" "length gaps = Suc (length (split ?r))"
      using cut_at_length [OF ih] by auto
    have inner: "\<forall>x\<in>set (butlast gaps). x \<noteq> []"
    proof (cases "tl gaps = []")
      case True
      with gaps(1) have "butlast gaps = []" by (cases gaps) simp_all
      then show ?thesis by simp
    next
      case tl: False
      then have "split ?r \<noteq> []"
        using gaps by (cases gaps) auto
      then have nonempty: "?r \<noteq> []"
        by (rule split_nonempty)
      with r have "isspace (hd ?r)" by blast
      with nonempty have "takeWhile isspace ?r \<noteq> []"
        by (rule takeWhile_hd)
      with hd_gaps have "hd gaps \<noteq> []" by metis
      moreover have "butlast gaps = hd gaps # butlast (tl gaps)"
        using gaps(1) tl by (cases gaps) simp_all
      moreover have "\<forall>x\<in>set (butlast (tl gaps)). x \<noteq> []"
        using cut_at_inner [OF ih] by blast
      ultimately show ?thesis by simp
    qed
    have "cut_at (?g # gaps) s (?w # split ?r)"
    proof (rule cut_atI)
      show "length (?g # gaps) = Suc (length (?w # split ?r))"
        using gaps(2) by simp
      show "isspace c" if "x \<in> set (?g # gaps)" "c \<in> set x" for x c
      proof (cases "x = ?g")
        case True
        from that(2) have "c \<in> set ?g" unfolding True .
        with g show ?thesis by (rule bspec)
      next
        case False
        with that(1) have "x \<in> set gaps" by (metis set_ConsD)
        then show ?thesis using that(2) by (rule cut_at_white [OF ih])
      qed
      show "x \<noteq> []" if "x \<in> set (butlast (tl (?g # gaps)))" for x
        using that inner by simp
      show "x \<noteq> [] \<and> (\<forall>c\<in>set x. \<not> isspace c)" if "x \<in> set (?w # split ?r)" for x
      proof (cases "x = ?w")
        case True
        show ?thesis unfolding True using w w_plain by (rule conjI)
      next
        case False
        with that have "x \<in> set (split ?r)" by (metis set_ConsD)
        then show ?thesis by (rule cut_at_words [OF ih])
      qed
      have "weave (?g # gaps) (?w # split ?r) = ?g @ ?w @ weave gaps (split ?r)"
        by simp
      also have "\<dots> = ?g @ ?w @ ?r"
        by (simp only: cut_at_line [OF ih])
      also have "\<dots> = s"
        by simp
      finally show "weave (?g # gaps) (?w # split ?r) = s" .
    qed
    then have "cut_at (?g # gaps) s (split s)"
      by (simp only: split_s')
    then have "cut_at (?g # gaps) s (split s) \<and> hd (?g # gaps) = ?g"
      by simp
    then show ?thesis by blast
  qed
qed

lemma split_cut: "\<exists>gaps. cut_at gaps s (split s)"
  using split_cut_hd [of s] by blast

lemma cut_unique: "cut_at gaps s ws \<Longrightarrow> ws = split s"
proof (induction ws arbitrary: gaps s)
  case Nil
  then obtain g where one: "gaps = [g]"
    using cut_at_length [OF Nil] by (cases gaps) auto
  have "s = g"
    using cut_at_line [OF Nil] one by simp
  moreover have "\<forall>c\<in>set g. isspace c"
  proof
    fix c assume "c \<in> set g"
    then show "isspace c" using cut_at_white [OF Nil, of g c] one by simp
  qed
  ultimately have "s = g" "\<forall>c\<in>set g. isspace c"
    by simp_all
  then show ?case
    using split_white [of g "[]"] by (simp add: split_def)
next
  case (Cons w ws)
  then obtain g gaps' where gaps: "gaps = g # gaps'" "length gaps' = Suc (length ws)"
    by (cases gaps) (auto simp: cut_at_def)
  let ?rest = "weave gaps' ws"
  note c = Cons.prems [unfolded gaps(1)]
  have s: "s = g @ w @ ?rest"
    using cut_at_line [OF c] by simp
  have g: "\<forall>x\<in>set g. isspace x"
  proof
    fix x assume "x \<in> set g"
    then show "isspace x" using cut_at_white [OF c, of g x] by simp
  qed
  have w: "w \<noteq> []" "\<forall>c\<in>set w. \<not> isspace c"
    using cut_at_words [OF c, of w] by simp_all
  have inner: "\<forall>x\<in>set (butlast gaps'). x \<noteq> []"
  proof
    fix x assume "x \<in> set (butlast gaps')"
    then show "x \<noteq> []" using cut_at_inner [OF c, of x] by simp
  qed
  have white: "\<forall>x\<in>set gaps'. \<forall>y\<in>set x. isspace y"
  proof (intro ballI)
    fix x y assume "x \<in> set gaps'" "y \<in> set x"
    then show "isspace y" using cut_at_white [OF c, of x y] by simp
  qed
  have words: "\<forall>v\<in>set ws. v \<noteq> [] \<and> (\<forall>c\<in>set v. \<not> isspace c)"
  proof
    fix v assume "v \<in> set ws"
    then show "v \<noteq> [] \<and> (\<forall>c\<in>set v. \<not> isspace c)" using cut_at_words [OF c, of v] by simp
  qed
  have "cut_at gaps' ?rest ws"
  proof (rule cut_atI)
    show "length gaps' = Suc (length ws)" by (rule gaps(2))
    show "isspace y" if "x \<in> set gaps'" "y \<in> set x" for x y
      using that white by blast
    show "x \<noteq> []" if "x \<in> set (butlast (tl gaps'))" for x
      using butlast_tl_subset [OF that] inner by blast
    show "v \<noteq> [] \<and> (\<forall>c\<in>set v. \<not> isspace c)" if "v \<in> set ws" for v
      using that words by blast
    show "weave gaps' ws = ?rest" by simp
  qed
  then have ws: "ws = split ?rest"
    by (rule Cons.IH)
  have rest: "?rest = [] \<or> isspace (hd ?rest)"
  proof (cases ws)
    case Nil
    with gaps(2) obtain g1 where "gaps' = [g1]" by (cases gaps') auto
    with Nil white show ?thesis by (cases g1) auto
  next
    case (Cons w1 ws1)
    with gaps(2) have "length gaps' = Suc (Suc (length ws1))"
      by simp
    then obtain g1 gaps1 where g1: "gaps' = g1 # gaps1" "gaps1 \<noteq> []"
      by (auto simp: length_Suc_conv)
    then have "g1 \<noteq> []" using inner by simp
    moreover have "\<forall>c\<in>set g1. isspace c" using white g1 by simp
    ultimately show ?thesis using Cons g1 by (cases g1) auto
  qed
  have "split s = split (w @ ?rest)"
    unfolding s using split_white [OF g] by simp
  also have "\<dots> = w # split ?rest"
    using w rest by (rule split_word)
  finally show ?case using ws by simp
qed

lemma rstrip_newline_stripped: "stripped_of line (rstrip_newline line)"
proof -
  let ?t = "takeWhile (\<lambda>c. c = 10) (rev line)" and ?d = "dropWhile (\<lambda>c. c = 10) (rev line)"
  have parts: "line = rev ?d @ rev ?t"
    by (metis rev_append rev_rev_ident takeWhile_dropWhile_id)
  have "?t = replicate (length ?t) 10"
    by (rule replicate_length_same [symmetric]) (auto dest: set_takeWhileD)
  then have "rev ?t = replicate (length ?t) 10"
    by (metis rev_replicate)
  moreover have "length ?t + length ?d = length (rev line)"
    by (metis length_append takeWhile_dropWhile_id)
  then have "length line = length ?d + length ?t"
    by simp
  ultimately have "line = rev ?d @ replicate (length line - length (rev ?d)) 10"
    using parts by simp
  moreover have "rev ?d = [] \<or> last (rev ?d) \<noteq> 10"
  proof (cases ?d)
    case Nil
    then show ?thesis by simp
  next
    case (Cons c cs)
    then have "c \<noteq> 10"
      by (metis (mono_tags, lifting) hd_dropWhile list.sel(1) list.distinct(1))
    with Cons show ?thesis by simp
  qed
  ultimately show ?thesis
    by (simp add: stripped_of_def rstrip_newline_def)
qed

lemma stripped_unique: "stripped_of line s \<Longrightarrow> s = rstrip_newline line"
proof -
  assume a: "stripped_of line s"
  let ?k = "length line - length s"
  from a have line: "line = s @ replicate ?k 10" and e: "s = [] \<or> last s \<noteq> 10"
    by (simp_all add: stripped_of_def)
  have "rev line = replicate ?k 10 @ rev s"
    by (subst line) simp
  moreover have "dropWhile (\<lambda>c. c = 10) (replicate ?k 10 @ rev s) = dropWhile (\<lambda>c. c = 10) (rev s)"
    by (rule dropWhile_append2) auto
  moreover have "dropWhile (\<lambda>c. c = 10) (rev s) = rev s"
    using e by (cases "rev s") (auto simp: last_rev)
  ultimately show ?thesis
    by (simp add: rstrip_newline_def)
qed

subsection \<open>No assertion fails while the files are read\<close>





lemma init_paired:
  "IWSLTDataset_init env cfg fs s t md = Inr ds \<Longrightarrow> length (tgt_text ds) = length (src_text ds)"
  by (auto simp: IWSLTDataset_init_def Let_def and_then_eq_Inr split: if_splits)

subsection \<open>Templates and paths of plain language codes\<close>

lemma format_from_plain:
  "CHR ''{'' \<notin> set t \<Longrightarrow> CHR ''}'' \<notin> set t \<Longrightarrow> format_from used t a = Inr t"
  by (induction used t a rule: format_from.induct) auto

lemma format1_field_first:
  assumes "CHR ''{'' \<notin> set t" "CHR ''}'' \<notin> set t"
  shows "format1 (''{}'' @ t) a = Inr (a @ t)"
  using assms by (cases t) (simp_all add: format1_def format_from_plain)

lemma join_one: "name = [] \<or> hd name \<noteq> CHR ''/'' \<Longrightarrow> join d [name] = under_dir d name"
  by (auto simp: join_def join_step_def under_dir_def)

lemma join_two:
  "a = [] \<or> hd a \<noteq> CHR ''/'' \<Longrightarrow> b = [] \<or> hd b \<noteq> CHR ''/'' \<Longrightarrow>
     join d [a, b] = under_dir (under_dir d a) b"
  by (auto simp: join_def join_step_def under_dir_def)

lemma under_plain: "d \<noteq> [] \<Longrightarrow> last d \<noteq> CHR ''/'' \<Longrightarrow> under_dir d name = d @ ''/'' @ name"
  by (simp add: under_dir_def)

lemma prefix_cases:
  "prefix md = Some p \<longleftrightarrow> md \<in> {''train'', ''valid'', ''test''} \<and> p = spec_prefix md"
  by (auto simp: prefix_def spec_prefix_def)

lemma spec_prefix_hd: "hd (spec_prefix md @ rest) \<noteq> CHR ''/''"
  by (simp add: spec_prefix_def)

lemma pair_hd:
  assumes "plain_code s"
  shows "hd (iso_code s @ ''-'' @ rest) \<noteq> CHR ''/''"
proof (cases "iso_code s")
  case Nil
  then show ?thesis by simp
next
  case (Cons c cs)
  then have "c \<in> set s" by (metis in_set_dropD iso_code_def list.set_intros(1))
  with assms Cons show ?thesis by (auto simp: plain_code_def)
qed

lemma template_name:
  assumes "plain_code s" "plain_code t" "plain_code l"
  shows "format1 (''{}.'' @ drop 1 s @ ''-'' @ drop 1 t @ l) p = Inr (p @ ''.'' @ iso_code s @ ''-'' @ iso_code t @ l)"
proof -
  have "set (drop 1 s) \<subseteq> set s" "set (drop 1 t) \<subseteq> set t"
    by (auto dest: in_set_dropD)
  then have "CHR ''{'' \<notin> set (''.'' @ drop 1 s @ ''-'' @ drop 1 t @ l)"
       "CHR ''}'' \<notin> set (''.'' @ drop 1 s @ ''-'' @ drop 1 t @ l)"
    using assms by (auto simp: plain_code_def)
  then have "format1 (''{}'' @ (''.'' @ drop 1 s @ ''-'' @ drop 1 t @ l)) p
               = Inr (p @ (''.'' @ drop 1 s @ ''-'' @ drop 1 t @ l))"
    by (rule format1_field_first)
  then show ?thesis by (simp add: iso_code_def)
qed

lemma corpus_dir_spec:
  assumes "plain_code s"
  shows "join (ROOT_BPE_DIR cfg) [''iwslt'', drop 1 s @ ''-'' @ drop 1 t] = spec_corpus_dir cfg s t"
proof -
  have "hd (iso_code s @ ''-'' @ iso_code t) \<noteq> CHR ''/''"
    using assms by (rule pair_hd)
  then have "join (ROOT_BPE_DIR cfg) [''iwslt'', iso_code s @ ''-'' @ iso_code t]
               = under_dir (under_dir (ROOT_BPE_DIR cfg) ''iwslt'') (iso_code s @ ''-'' @ iso_code t)"
    by (intro join_two) simp_all
  then show ?thesis by (simp add: spec_corpus_dir_def iso_code_def)
qed

lemma get_txt_spec:
  assumes s: "plain_code s" and t: "plain_code t" and md: "md \<in> {''train'', ''valid'', ''test''}"
  shows "get_txt env fs s t (spec_corpus_dir cfg s t) md =
           and_then (opened (open_read env (spec_file cfg s t md s) fs)) (\<lambda>_.
           and_then (opened (open_read env (spec_file cfg s t md t) fs)) (\<lambda>_.
           and_then (from_env (readlines env (spec_file cfg s t md s) fs)) (\<lambda>a.
           and_then (from_env (readlines env (spec_file cfg s t md t) fs)) (\<lambda>b.
           Inr (a, b)))))"
proof -
  have p: "prefix md = Some (spec_prefix md)"
    using md by (simp add: prefix_cases)
  have n1: "format1 ((''{}.'' @ drop 1 s @ ''-'' @ drop 1 t) @ s) (spec_prefix md)
              = Inr (spec_prefix md @ ''.'' @ iso_code s @ ''-'' @ iso_code t @ s)"
    using template_name [OF s t s] by simp
  have n2: "format1 ((''{}.'' @ drop 1 s @ ''-'' @ drop 1 t) @ t) (spec_prefix md)
              = Inr (spec_prefix md @ ''.'' @ iso_code s @ ''-'' @ iso_code t @ t)"
    using template_name [OF s t t] by simp
  have j: "join d [spec_prefix md @ rest] = under_dir d (spec_prefix md @ rest)" for d rest
    by (rule join_one) (simp add: spec_prefix_hd)
  show ?thesis
    using p n1 n2 by (simp add: get_txt_def Let_def j spec_file_def)
qed

section \<open>Properties of Agent.forward\<close>

text \<open>
  C1. The docstring of \<^verbatim>\<open>forward\<close> promises the mask \<open>None\<close> when no target lengths are
  supplied. The code never returns in that case: whatever the other arguments are, the
  call ends in the attribute error of \<^verbatim>\<open>None.float()\<close>.
\<close>

theorem forward_without_tgt_lengths_raises:
  "forward ag src_b tgt_b src_lens None with_align = Inl AttributeError"
  by (simp add: forward_def split: prod.splits)

text \<open>
  C2. With target lengths supplied the call returns. The decoder is run on \<^verbatim>\<open>tgt[:, :-1]\<close>
  (with the encoder's states and memory and the source lengths); the result holds the
  decoder's scores passed through \<^verbatim>\<open>log_softmax\<close> along the last dimension,
  \<^verbatim>\<open>tgt[:, 1:]\<close>, and the float mask of \<open>tgt_lengths - 1\<close> with \<open>logits.size(1)\<close> columns;
  the alignments are a fourth element exactly when \<open>with_align\<close> holds. For a decoder
  that scores every position it is fed, every row of the log-probabilities and of the
  returned targets has one entry less than the row of \<open>tgt\<close> it comes from.
\<close>

theorem forward_with_tgt_lengths:
  assumes enc: "encode ag src_b = (states, memory)"
    and dec: "teacher_forcing ag (drop_last_col tgt_b) memory states src_lens = (logits, alignments)"
    and shape: "map length logits = map length (drop_last_col tgt_b)"
  shows "forward ag src_b tgt_b src_lens (Some ls) with_align =
           Inr (if with_align
                then Quad (map (map (log_softmax ag)) logits) (drop_first_col tgt_b)
                       (float_on (sequence_mask (map (\<lambda>l. l - 1) ls) (size1 logits)) (device ag))
                       alignments
                else Triple (map (map (log_softmax ag)) logits) (drop_first_col tgt_b)
                       (float_on (sequence_mask (map (\<lambda>l. l - 1) ls) (size1 logits)) (device ag)))
         \<and> map length (map (map (log_softmax ag)) logits) = map (\<lambda>r. length r - 1) tgt_b
         \<and> map length (drop_first_col tgt_b) = map (\<lambda>r. length r - 1) tgt_b"
proof -
  have "forward ag src_b tgt_b src_lens (Some ls) with_align =
           Inr (if with_align
                then Quad (map (map (log_softmax ag)) logits) (drop_first_col tgt_b)
                       (float_on (sequence_mask (map (\<lambda>l. l - 1) ls) (size1 logits)) (device ag))
                       alignments
                else Triple (map (map (log_softmax ag)) logits) (drop_first_col tgt_b)
                       (float_on (sequence_mask (map (\<lambda>l. l - 1) ls) (size1 logits)) (device ag)))"
    using enc dec by (simp add: forward_def)
  moreover have "map length (map (map (log_softmax ag)) logits) = map (\<lambda>r. length r - 1) tgt_b"
    using shape by (simp add: drop_last_col_def comp_def)
  moreover have "map length (drop_first_col tgt_b) = map (\<lambda>r. length r - 1) tgt_b"
    by (simp add: drop_first_col_def comp_def)
  ultimately show ?thesis by simp
qed

theorem forward_with_tgt_lengths_witness:
  "forward \<lparr>encode = (\<lambda>s. ((), s)), teacher_forcing = (\<lambda>t m s l. (map (map (\<lambda>x. [x, x + 1])) t, m)),
            log_softmax = map (\<lambda>x. x - 1), device = ''cpu''\<rparr>
     [[4, 5, 1]] [[0, 7, 1], [0, 1, 1]] (Some [3]) (Some [3, 2]) True =
   Inr (Quad [[[-1, 0], [6, 7]], [[-1, 0], [0, 1]]] [[7, 1], [1, 1]]
          \<lparr>entries = [[1, 1], [1, 0]], on_device = ''cpu''\<rparr> [[4, 5, 1]])"
  using forward_with_tgt_lengths
    [of "\<lparr>encode = (\<lambda>s. ((), s)), teacher_forcing = (\<lambda>t m s l. (map (map (\<lambda>x. [x, x + 1])) t, m)),
           log_softmax = map (\<lambda>x. x - 1), device = ''cpu''\<rparr>"
        "[[4, 5, 1]]" "()" "[[4, 5, 1]]" "[[0, 7, 1], [0, 1, 1]]" "Some [3]"
        "[[[0, 1], [7, 8]], [[0, 1], [1, 2]]]" "[[4, 5, 1]]" "[3, 2]" True]
  by (simp add: drop_last_col_def drop_first_col_def float_on_def sequence_mask_def size1_def
        upt_rec)

section \<open>Properties of the dataset\<close>




text \<open>
  C4. For a constructed dataset and an index \<open>i\<close> with \<open>-len \<le> i < len\<close> (a negative index
  counts from the end), \<^verbatim>\<open>dataset[i]\<close> returns an example whose two lengths are 0 and
  whose \<open>src\<close> and \<open>tgt\<close> are the words of the stored source and target line at that
  position: the line without its trailing line feeds, cut at its whitespace. The words
  are fixed by the line alone: whatever list of words is a cut of the stripped line at
  its whitespace is the list returned.
\<close>

theorem getitem_valid_index:
  assumes init: "IWSLTDataset_init env cfg fs s t md = Inr ds"
    and lo: "- int (len ds) \<le> i" and hi: "i < int (len ds)"
  shows "\<exists>ex. getitem ds i = Inr ex
           \<and> src ex = split (rstrip_newline (src_text ds ! nat (if i < 0 then int (len ds) + i else i)))
           \<and> tgt ex = split (rstrip_newline (tgt_text ds ! nat (if i < 0 then int (len ds) + i else i)))
           \<and> src_lengths ex = 0 \<and> tgt_lengths ex = 0
           \<and> (\<exists>stripped gaps.
                 stripped_of (src_text ds ! nat (if i < 0 then int (len ds) + i else i)) stripped
                 \<and> cut_at gaps stripped (src ex))
           \<and> (\<exists>stripped gaps.
                 stripped_of (tgt_text ds ! nat (if i < 0 then int (len ds) + i else i)) stripped
                 \<and> cut_at gaps stripped (tgt ex))
           \<and> (\<forall>stripped gaps ws.
                 stripped_of (src_text ds ! nat (if i < 0 then int (len ds) + i else i)) stripped
                 \<and> cut_at gaps stripped ws \<longrightarrow> ws = src ex)
           \<and> (\<forall>stripped gaps ws.
                 stripped_of (tgt_text ds ! nat (if i < 0 then int (len ds) + i else i)) stripped
                 \<and> cut_at gaps stripped ws \<longrightarrow> ws = tgt ex)"
proof -
  let ?k = "nat (if i < 0 then int (len ds) + i else i)"
  let ?ex = "\<lparr>src = split (rstrip_newline (src_text ds ! ?k)),
               tgt = split (rstrip_newline (tgt_text ds ! ?k)),
               src_lengths = 0::int, tgt_lengths = 0::int\<rparr>"
  have same: "length (tgt_text ds) = length (src_text ds)"
    using init by (rule init_paired)
  have s: "subscript (src_text ds) i = Inr (src_text ds ! ?k)"
    using lo hi by (auto simp: subscript_def len_def)
  have t: "subscript (tgt_text ds) i = Inr (tgt_text ds ! ?k)"
    using lo hi same by (auto simp: subscript_def len_def)
  have g: "getitem ds i = Inr ?ex"
    by (simp add: getitem_def s t)
  have sel: "src ?ex = split (rstrip_newline (src_text ds ! ?k))"
    "tgt ?ex = split (rstrip_newline (tgt_text ds ! ?k))"
    "src_lengths ?ex = 0" "tgt_lengths ?ex = 0"
    by simp_all
  have words: "\<exists>stripped gaps. stripped_of line stripped \<and> cut_at gaps stripped (split (rstrip_newline line))"
    for line
  proof -
    obtain gaps where "cut_at gaps (rstrip_newline line) (split (rstrip_newline line))"
      using split_cut [of "rstrip_newline line"] by (rule exE)
    with rstrip_newline_stripped [of line] show ?thesis
      by (intro exI conjI)
  qed
  have only: "\<forall>stripped gaps ws. stripped_of line stripped \<and> cut_at gaps stripped ws
                \<longrightarrow> ws = split (rstrip_newline line)"
    for line
  proof (intro allI impI)
    fix stripped gaps ws
    assume a: "stripped_of line stripped \<and> cut_at gaps stripped ws"
    then have "stripped = rstrip_newline line"
      using stripped_unique [of line stripped] by (elim conjE)
    moreover from a have "ws = split stripped"
      using cut_unique [of gaps stripped ws] by (elim conjE)
    ultimately show "ws = split (rstrip_newline line)"
      by (rule subst)
  qed
  have e1: "\<exists>stripped gaps. stripped_of (src_text ds ! ?k) stripped \<and> cut_at gaps stripped (src ?ex)"
    unfolding sel(1) by (rule words)
  have e2: "\<exists>stripped gaps. stripped_of (tgt_text ds ! ?k) stripped \<and> cut_at gaps stripped (tgt ?ex)"
    unfolding sel(2) by (rule words)
  have u1: "\<forall>stripped gaps ws. stripped_of (src_text ds ! ?k) stripped \<and> cut_at gaps stripped ws
              \<longrightarrow> ws = src ?ex"
    unfolding sel(1) by (rule only)
  have u2: "\<forall>stripped gaps ws. stripped_of (tgt_text ds ! ?k) stripped \<and> cut_at gaps stripped ws
              \<longrightarrow> ws = tgt ?ex"
    unfolding sel(2) by (rule only)
  show ?thesis
    by (rule exI [of _ ?ex], intro conjI; fact)
qed

theorem getitem_valid_index_witness:
  "(\<exists>ex. getitem example_dataset 0 = Inr ex
         \<and> src ex = [text_of ''a'', text_of ''cat'', text_of ''sat'']
         \<and> tgt ex = [text_of ''eine'', text_of ''katze'']
         \<and> src_lengths ex = 0 \<and> tgt_lengths ex = 0)
   \<and> (\<exists>ex. getitem example_dataset (- 1) = Inr ex
         \<and> src ex = [text_of ''cat''] \<and> tgt ex = [text_of ''katze'']
         \<and> src_lengths ex = 0 \<and> tgt_lengths ex = 0)"
proof
  have init: "IWSLTDataset_init mem_env example_settings example_files ''.en'' ''.de'' ''train''
                = Inr example_dataset"
    by code_simp
  have lo: "- int (len example_dataset) \<le> 0" and hi: "0 < int (len example_dataset)"
    by (simp_all add: len_def example_dataset_def)
  have s: "split (rstrip_newline (src_text example_dataset !
             nat (if (0 :: int) < 0 then int (len example_dataset) + 0 else 0)))
           = [text_of ''a'', text_of ''cat'', text_of ''sat'']"
    by code_simp
  have t: "split (rstrip_newline (tgt_text example_dataset !
             nat (if (0 :: int) < 0 then int (len example_dataset) + 0 else 0)))
           = [text_of ''eine'', text_of ''katze'']"
    by code_simp
  from getitem_valid_index [OF init lo hi] obtain ex where
    "getitem example_dataset 0 = Inr ex"
    "src ex = split (rstrip_newline (src_text example_dataset !
                nat (if (0 :: int) < 0 then int (len example_dataset) + 0 else 0)))"
    "tgt ex = split (rstrip_newline (tgt_text example_dataset !
                nat (if (0 :: int) < 0 then int (len example_dataset) + 0 else 0)))"
    "src_lengths ex = 0" "tgt_lengths ex = 0"
    by (elim exE conjE)
  then show "\<exists>ex. getitem example_dataset 0 = Inr ex
         \<and> src ex = [text_of ''a'', text_of ''cat'', text_of ''sat'']
         \<and> tgt ex = [text_of ''eine'', text_of ''katze'']
         \<and> src_lengths ex = 0 \<and> tgt_lengths ex = 0"
    unfolding s t by (intro exI conjI)
  have lo': "- int (len example_dataset) \<le> - 1" and hi': "- 1 < int (len example_dataset)"
    by (simp_all add: len_def example_dataset_def)
  have s': "split (rstrip_newline (src_text example_dataset !
             nat (if (- 1 :: int) < 0 then int (len example_dataset) + - 1 else - 1)))
            = [text_of ''cat'']"
    by code_simp
  have t': "split (rstrip_newline (tgt_text example_dataset !
             nat (if (- 1 :: int) < 0 then int (len example_dataset) + - 1 else - 1)))
            = [text_of ''katze'']"
    by code_simp
  from getitem_valid_index [OF init lo' hi'] obtain ex where
    "getitem example_dataset (- 1) = Inr ex"
    "src ex = split (rstrip_newline (src_text example_dataset !
                nat (if (- 1 :: int) < 0 then int (len example_dataset) + - 1 else - 1)))"
    "tgt ex = split (rstrip_newline (tgt_text example_dataset !
                nat (if (- 1 :: int) < 0 then int (len example_dataset) + - 1 else - 1)))"
    "src_lengths ex = 0" "tgt_lengths ex = 0"
    by (elim exE conjE)
  then show "\<exists>ex. getitem example_dataset (- 1) = Inr ex
         \<and> src ex = [text_of ''cat''] \<and> tgt ex = [text_of ''katze'']
         \<and> src_lengths ex = 0 \<and> tgt_lengths ex = 0"
    unfolding s' t' by (intro exI conjI)
qed

text \<open>
  C9. For plain language codes and a mode among \<^verbatim>\<open>train\<close>, \<^verbatim>\<open>valid\<close>, \<^verbatim>\<open>test\<close>, the
  constructor's corpus directory is \<^verbatim>\<open>ROOT_BPE_DIR/iwslt/<srcISO>-<tgtISO>\<close>, and \<^verbatim>\<open>get_txt\<close>
  opens and reads, in this order, the files \<^verbatim>\<open><prefix>.<srcISO>-<tgtISO><langCode>\<close> of the
  source and of the target language in that directory, the prefix being \<^verbatim>\<open>train\<close>,
  \<^verbatim>\<open>IWSLT16.TED.tst2013\<close> or \<^verbatim>\<open>IWSLT16.TED.tst2014\<close>; a constructed dataset holds the lines
  of exactly these two files. The last part spells the two paths out for a root directory
  that is not empty and does not end in a separator.
\<close>

theorem IWSLTDataset_paths:
  assumes s: "plain_code s" and t: "plain_code t" and md: "md \<in> {''train'', ''valid'', ''test''}"
  shows "get_txt env fs s t (spec_corpus_dir cfg s t) md =
           and_then (opened (open_read env (spec_file cfg s t md s) fs)) (\<lambda>_.
           and_then (opened (open_read env (spec_file cfg s t md t) fs)) (\<lambda>_.
           and_then (from_env (readlines env (spec_file cfg s t md s) fs)) (\<lambda>a.
           and_then (from_env (readlines env (spec_file cfg s t md t) fs)) (\<lambda>b.
           Inr (a, b)))))
       \<and> (\<forall>ds. IWSLTDataset_init env cfg fs s t md = Inr ds \<longrightarrow>
             bpe_corpus_dir ds = spec_corpus_dir cfg s t \<and>
             readlines env (spec_file cfg s t md s) fs = Inr (src_text ds) \<and>
             readlines env (spec_file cfg s t md t) fs = Inr (tgt_text ds))
       \<and> (ROOT_BPE_DIR cfg \<noteq> [] \<and> last (ROOT_BPE_DIR cfg) \<noteq> CHR ''/'' \<longrightarrow>
             spec_corpus_dir cfg s t
               = ROOT_BPE_DIR cfg @ ''/iwslt/'' @ iso_code s @ ''-'' @ iso_code t \<and>
             (\<forall>lang. spec_file cfg s t md lang
               = ROOT_BPE_DIR cfg @ ''/iwslt/'' @ iso_code s @ ''-'' @ iso_code t @ ''/''
                   @ spec_prefix md @ ''.'' @ iso_code s @ ''-'' @ iso_code t @ lang))"
proof -
  have g: "get_txt env fs s t (spec_corpus_dir cfg s t) md =
           and_then (opened (open_read env (spec_file cfg s t md s) fs)) (\<lambda>_.
           and_then (opened (open_read env (spec_file cfg s t md t) fs)) (\<lambda>_.
           and_then (from_env (readlines env (spec_file cfg s t md s) fs)) (\<lambda>a.
           and_then (from_env (readlines env (spec_file cfg s t md t) fs)) (\<lambda>b.
           Inr (a, b)))))"
    using s t md by (rule get_txt_spec)
  have built: "\<forall>ds. IWSLTDataset_init env cfg fs s t md = Inr ds \<longrightarrow>
             bpe_corpus_dir ds = spec_corpus_dir cfg s t \<and>
             readlines env (spec_file cfg s t md s) fs = Inr (src_text ds) \<and>
             readlines env (spec_file cfg s t md t) fs = Inr (tgt_text ds)"
  proof (intro allI impI)
    fix ds
    assume init: "IWSLTDataset_init env cfg fs s t md = Inr ds"
    have d: "join (ROOT_BPE_DIR cfg) [''iwslt'', drop 1 s @ ''-'' @ drop 1 t] = spec_corpus_dir cfg s t"
      using s by (rule corpus_dir_spec)
    from init have there: "bpe_corpus_dir ds = spec_corpus_dir cfg s t"
      and contents: "get_txt env fs s t (spec_corpus_dir cfg s t) md = Inr (src_text ds, tgt_text ds)"
      unfolding IWSLTDataset_init_def Let_def d
      by (auto simp: and_then_eq_Inr split: if_splits)
    from contents [unfolded g]
    have "from_env (readlines env (spec_file cfg s t md s) fs) = Inr (src_text ds)
          \<and> from_env (readlines env (spec_file cfg s t md t) fs) = Inr (tgt_text ds)"
      by (auto simp: and_then_eq_Inr)
    then have "readlines env (spec_file cfg s t md s) fs = Inr (src_text ds)
          \<and> readlines env (spec_file cfg s t md t) fs = Inr (tgt_text ds)"
      by (auto simp: from_env_def split: sum.splits)
    with there show "bpe_corpus_dir ds = spec_corpus_dir cfg s t \<and>
             readlines env (spec_file cfg s t md s) fs = Inr (src_text ds) \<and>
             readlines env (spec_file cfg s t md t) fs = Inr (tgt_text ds)"
      by simp
  qed
  have literal: "ROOT_BPE_DIR cfg \<noteq> [] \<and> last (ROOT_BPE_DIR cfg) \<noteq> CHR ''/'' \<longrightarrow>
             spec_corpus_dir cfg s t
               = ROOT_BPE_DIR cfg @ ''/iwslt/'' @ iso_code s @ ''-'' @ iso_code t \<and>
             (\<forall>lang. spec_file cfg s t md lang
               = ROOT_BPE_DIR cfg @ ''/iwslt/'' @ iso_code s @ ''-'' @ iso_code t @ ''/''
                   @ spec_prefix md @ ''.'' @ iso_code s @ ''-'' @ iso_code t @ lang)"
  proof
    assume r: "ROOT_BPE_DIR cfg \<noteq> [] \<and> last (ROOT_BPE_DIR cfg) \<noteq> CHR ''/''"
    then have u: "under_dir (ROOT_BPE_DIR cfg) ''iwslt'' = ROOT_BPE_DIR cfg @ ''/iwslt''"
      by (simp add: under_dir_def)
    have "last (iso_code s @ ''-'' @ iso_code t) \<noteq> CHR ''/''"
    proof (cases "iso_code t = []")
      case True
      then show ?thesis by simp
    next
      case False
      then have "last (iso_code t) \<in> set t"
        by (metis in_set_dropD iso_code_def last_in_set)
      with t False show ?thesis by (auto simp: plain_code_def)
    qed
    with r show "spec_corpus_dir cfg s t
               = ROOT_BPE_DIR cfg @ ''/iwslt/'' @ iso_code s @ ''-'' @ iso_code t \<and>
             (\<forall>lang. spec_file cfg s t md lang
               = ROOT_BPE_DIR cfg @ ''/iwslt/'' @ iso_code s @ ''-'' @ iso_code t @ ''/''
                   @ spec_prefix md @ ''.'' @ iso_code s @ ''-'' @ iso_code t @ lang)"
      by (simp add: spec_file_def spec_corpus_dir_def u under_dir_def)
  qed
  show ?thesis
    by (rule conjI [OF g conjI [OF built literal]])
qed


theorem IWSLTDataset_paths_witness:
  "bpe_corpus_dir example_dataset = ''/data/bpe/iwslt/en-de''
   \<and> spec_file example_settings ''.en'' ''.de'' ''train'' ''.en'' = ''/data/bpe/iwslt/en-de/train.en-de.en''
   \<and> spec_file example_settings ''.en'' ''.de'' ''train'' ''.de'' = ''/data/bpe/iwslt/en-de/train.en-de.de''
   \<and> readlines mem_env ''/data/bpe/iwslt/en-de/train.en-de.en'' example_files = Inr (src_text example_dataset)
   \<and> readlines mem_env ''/data/bpe/iwslt/en-de/train.en-de.de'' example_files = Inr (tgt_text example_dataset)"
proof -
  have en: "plain_code ''.en''" and de: "plain_code ''.de''"
    by (simp_all add: plain_code_def)
  have md: "''train'' \<in> {''train'', ''valid'', ''test''}"
    by simp
  have init: "IWSLTDataset_init mem_env example_settings example_files ''.en'' ''.de'' ''train''
                = Inr example_dataset"
    by code_simp
  have r: "ROOT_BPE_DIR example_settings \<noteq> [] \<and> last (ROOT_BPE_DIR example_settings) \<noteq> CHR ''/''"
    by (simp add: example_settings_def)
  note paths = IWSLTDataset_paths [OF en de md, of mem_env example_files example_settings]
  from paths init have built:
    "bpe_corpus_dir example_dataset = spec_corpus_dir example_settings ''.en'' ''.de''"
    "readlines mem_env (spec_file example_settings ''.en'' ''.de'' ''train'' ''.en'') example_files
       = Inr (src_text example_dataset)"
    "readlines mem_env (spec_file example_settings ''.en'' ''.de'' ''train'' ''.de'') example_files
       = Inr (tgt_text example_dataset)"
    by simp_all
  from paths r have spelled:
    "spec_corpus_dir example_settings ''.en'' ''.de''
       = ROOT_BPE_DIR example_settings @ ''/iwslt/'' @ iso_code ''.en'' @ ''-'' @ iso_code ''.de''"
    "spec_file example_settings ''.en'' ''.de'' ''train'' ''.en''
       = ROOT_BPE_DIR example_settings @ ''/iwslt/'' @ iso_code ''.en'' @ ''-'' @ iso_code ''.de'' @ ''/''
           @ spec_prefix ''train'' @ ''.'' @ iso_code ''.en'' @ ''-'' @ iso_code ''.de'' @ ''.en''"
    "spec_file example_settings ''.en'' ''.de'' ''train'' ''.de''
       = ROOT_BPE_DIR example_settings @ ''/iwslt/'' @ iso_code ''.en'' @ ''-'' @ iso_code ''.de'' @ ''/''
           @ spec_prefix ''train'' @ ''.'' @ iso_code ''.en'' @ ''-'' @ iso_code ''.de'' @ ''.de''"
    by simp_all
  have v: "ROOT_BPE_DIR example_settings @ ''/iwslt/'' @ iso_code ''.en'' @ ''-'' @ iso_code ''.de''
             = ''/data/bpe/iwslt/en-de''"
    "ROOT_BPE_DIR example_settings @ ''/iwslt/'' @ iso_code ''.en'' @ ''-'' @ iso_code ''.de'' @ ''/''
           @ spec_prefix ''train'' @ ''.'' @ iso_code ''.en'' @ ''-'' @ iso_code ''.de'' @ ''.en''
             = ''/data/bpe/iwslt/en-de/train.en-de.en''"
    "ROOT_BPE_DIR example_settings @ ''/iwslt/'' @ iso_code ''.en'' @ ''-'' @ iso_code ''.de'' @ ''/''
           @ spec_prefix ''train'' @ ''.'' @ iso_code ''.en'' @ ''-'' @ iso_code ''.de'' @ ''.de''
             = ''/data/bpe/iwslt/en-de/train.en-de.de''"
    by (simp_all add: example_settings_def iso_code_def spec_prefix_def)
  show ?thesis
    using built unfolding spelled v by (intro conjI) simp_all
qed

section \<open>Properties of batching\<close>

lemma fold_max_Suc: "fold max (map (\<lambda>x. Suc (f x)) xs) (Suc a) = Suc (fold max (map f xs) a)"
  by (induction xs arbitrary: a) simp_all

lemma fold_max_Suc_0:
  "xs \<noteq> [] \<Longrightarrow> fold max (map (\<lambda>x. Suc (f x)) xs) 0 = Suc (fold max (map f xs) 0)"
  by (cases xs) (simp_all add: fold_max_Suc)

lemma pad_with_end:
  assumes "sentences \<noteq> []"
  shows "pad_to_same_length sentences p None (Some e) =
           (map (\<lambda>s. s @ e # replicate (fold max (map length sentences) 0 - length s) p) sentences,
            map (\<lambda>s. int (length s) + 1) sentences)"
proof -
  have "fold max (map (\<lambda>s. Suc (length s)) sentences) 0 = Suc (fold max (map length sentences) 0)"
    using assms by (rule fold_max_Suc_0)
  then show ?thesis
    by (simp add: pad_to_same_length_def Let_def wrap_def comp_def)
qed

lemma pad_with_init_and_end:
  assumes "sentences \<noteq> []"
  shows "pad_to_same_length sentences p (Some b) (Some e) =
           (map (\<lambda>s. b # s @ e # replicate (fold max (map length sentences) 0 - length s) p) sentences,
            map (\<lambda>s. int (length s) + 2) sentences)"
proof -
  have "fold max (map (\<lambda>s. Suc (Suc (length s))) sentences) 0
          = Suc (fold max (map (\<lambda>s. Suc (length s)) sentences) 0)"
    using assms by (rule fold_max_Suc_0)
  also have "fold max (map (\<lambda>s. Suc (length s)) sentences) 0 = Suc (fold max (map length sentences) 0)"
    using assms by (rule fold_max_Suc_0)
  finally show ?thesis
    by (simp add: pad_to_same_length_def Let_def wrap_def comp_def)
qed

text \<open>
  C5. For a non-empty batch, \<^verbatim>\<open>collate_fn\<close> returns one example: \<open>src\<close> is the 64-bit tensor
  of the source vocabulary's indices of the source sentences padded by
  \<^verbatim>\<open>pad_to_same_length\<close> with \<open>EOS_WORD\<close> as pad and end token and no init token, \<open>tgt\<close> the
  same with the target vocabulary and \<open>BOS_WORD\<close> as init token, and the two length fields
  are the 32-bit tensors of the lengths that the padding reports. Every padded source
  row is the sentence, \<open>EOS_WORD\<close>, and \<open>EOS_WORD\<close> up to the longest sentence of the batch,
  with length one more than the sentence; every target row starts with \<open>BOS_WORD\<close> in
  addition, with length two more than the sentence.
\<close>

theorem collate_fn_batch:
  assumes "batch \<noteq> []"
  shows "collate_fn cfg sv tv batch =
           \<lparr>src = Tensor2 Int64 (numerize sv
                    (fst (pad_to_same_length (map src batch) (EOS_WORD cfg) None (Some (EOS_WORD cfg))))),
            tgt = Tensor2 Int64 (numerize tv
                    (fst (pad_to_same_length (map tgt batch) (EOS_WORD cfg)
                            (Some (BOS_WORD cfg)) (Some (EOS_WORD cfg))))),
            src_lengths = Tensor1 Int32 (map to_int32
                    (snd (pad_to_same_length (map src batch) (EOS_WORD cfg) None (Some (EOS_WORD cfg))))),
            tgt_lengths = Tensor1 Int32 (map to_int32
                    (snd (pad_to_same_length (map tgt batch) (EOS_WORD cfg)
                            (Some (BOS_WORD cfg)) (Some (EOS_WORD cfg)))))\<rparr>
       \<and> pad_to_same_length (map src batch) (EOS_WORD cfg) None (Some (EOS_WORD cfg)) =
           (map (\<lambda>ex. src ex @ EOS_WORD cfg #
                   replicate (fold max (map length (map src batch)) 0 - length (src ex)) (EOS_WORD cfg))
              batch,
            map (\<lambda>ex. int (length (src ex)) + 1) batch)
       \<and> pad_to_same_length (map tgt batch) (EOS_WORD cfg) (Some (BOS_WORD cfg)) (Some (EOS_WORD cfg)) =
           (map (\<lambda>ex. BOS_WORD cfg # tgt ex @ EOS_WORD cfg #
                   replicate (fold max (map length (map tgt batch)) 0 - length (tgt ex)) (EOS_WORD cfg))
              batch,
            map (\<lambda>ex. int (length (tgt ex)) + 2) batch)"
proof -
  have ne: "map src batch \<noteq> []" "map tgt batch \<noteq> []"
    using assms by simp_all
  have
    "pad_to_same_length (map src batch) (EOS_WORD cfg) None (Some (EOS_WORD cfg)) =
       (map (\<lambda>s. s @ EOS_WORD cfg #
               replicate (fold max (map length (map src batch)) 0 - length s) (EOS_WORD cfg))
          (map src batch),
        map (\<lambda>s. int (length s) + 1) (map src batch))"
    "pad_to_same_length (map tgt batch) (EOS_WORD cfg) (Some (BOS_WORD cfg)) (Some (EOS_WORD cfg)) =
       (map (\<lambda>s. BOS_WORD cfg # s @ EOS_WORD cfg #
               replicate (fold max (map length (map tgt batch)) 0 - length s) (EOS_WORD cfg))
          (map tgt batch),
        map (\<lambda>s. int (length s) + 2) (map tgt batch))"
    by (rule pad_with_end [OF ne(1)], rule pad_with_init_and_end [OF ne(2)])
  moreover have "collate_fn cfg sv tv batch =
           \<lparr>src = Tensor2 Int64 (numerize sv
                    (fst (pad_to_same_length (map src batch) (EOS_WORD cfg) None (Some (EOS_WORD cfg))))),
            tgt = Tensor2 Int64 (numerize tv
                    (fst (pad_to_same_length (map tgt batch) (EOS_WORD cfg)
                            (Some (BOS_WORD cfg)) (Some (EOS_WORD cfg))))),
            src_lengths = Tensor1 Int32 (map to_int32
                    (snd (pad_to_same_length (map src batch) (EOS_WORD cfg) None (Some (EOS_WORD cfg))))),
            tgt_lengths = Tensor1 Int32 (map to_int32
                    (snd (pad_to_same_length (map tgt batch) (EOS_WORD cfg)
                            (Some (BOS_WORD cfg)) (Some (EOS_WORD cfg)))))\<rparr>"
    by (simp add: collate_fn_def Let_def split: prod.splits)
  ultimately show ?thesis
    by (simp add: comp_def)
qed

theorem collate_fn_batch_witness:
  "collate_fn example_settings (src_vocab example_dataset) (tgt_vocab example_dataset) example_batch =
     \<lparr>src = Tensor2 Int64 [[2, 3, 1], [4, 1, 1]],
      tgt = Tensor2 Int64 [[0, 2, 3, 1], [0, 3, 1, 1]],
      src_lengths = Tensor1 Int32 [3, 2],
      tgt_lengths = Tensor1 Int32 [4, 3]\<rparr>"
proof -
  have ne: "example_batch \<noteq> []"
    by (simp add: example_batch_def)
  have "\<lparr>src = Tensor2 Int64 (numerize (src_vocab example_dataset)
                (fst (pad_to_same_length (map src example_batch) (EOS_WORD example_settings) None
                        (Some (EOS_WORD example_settings))))),
         tgt = Tensor2 Int64 (numerize (tgt_vocab example_dataset)
                (fst (pad_to_same_length (map tgt example_batch) (EOS_WORD example_settings)
                        (Some (BOS_WORD example_settings)) (Some (EOS_WORD example_settings))))),
         src_lengths = Tensor1 Int32 (map to_int32
                (snd (pad_to_same_length (map src example_batch) (EOS_WORD example_settings) None
                        (Some (EOS_WORD example_settings))))),
         tgt_lengths = Tensor1 Int32 (map to_int32
                (snd (pad_to_same_length (map tgt example_batch) (EOS_WORD example_settings)
                        (Some (BOS_WORD example_settings)) (Some (EOS_WORD example_settings)))))\<rparr>
        = \<lparr>src = Tensor2 Int64 [[2, 3, 1], [4, 1, 1]],
           tgt = Tensor2 Int64 [[0, 2, 3, 1], [0, 3, 1, 1]],
           src_lengths = Tensor1 Int32 [3, 2],
           tgt_lengths = Tensor1 Int32 [4, 3]\<rparr>"
    by code_simp
  with conjunct1 [OF collate_fn_batch [OF ne, of example_settings "src_vocab example_dataset"
                                         "tgt_vocab example_dataset"]]
  show ?thesis by (rule trans)
qed

lemma to_int32_small: "- (2 ^ 31) \<le> x \<Longrightarrow> x < 2 ^ 31 \<Longrightarrow> to_int32 x = x"
  unfolding to_int32_def by (simp add: signed_of_int signed_take_bit_int_eq_self)

section \<open>Properties of IWSLTExample.to\<close>







section \<open>Properties of the preprocessing\<close>

lemma events_on_files: "events (snd (on_files operation w)) = events w"
  by (simp add: on_files_def split: prod.splits option.splits)

lemma lang_files_distinct:
  assumes "distinct [a, b, c]"
  shows "dict_of [(a, x), (b, y), (c, z)] = [(a, x), (b, y), (c, z)]"
  using assms by (auto simp: dict_of_def)

lemma learn_bpe_cmd:
  assumes "distinct [EN cfg, DE cfg, FR cfg]"
  shows "learn_bpe env cfg =
           seq (if_exists env (ROOT_BPE_DIR cfg) returns (on_files (makedirs env (ROOT_BPE_DIR cfg))))
             (if_exists env (join (ROOT_BPE_DIR cfg) [''bpe.codes''])
                (LOGGER_info ''bpe.codes file exist, skipping...'')
                (seq (LOGGER_info ''Learning BPE on joint language...'') (call env (spec_learn_cmd cfg))))"
proof -
  have d: "dict_of
              [(EN cfg, join (ROOT_TOK_DIR cfg) [''iwslt'', ''en-de'', ''train.en-de.en'']),
               (DE cfg, join (ROOT_TOK_DIR cfg) [''iwslt'', ''en-de'', ''train.en-de.de'']),
               (FR cfg, join (ROOT_TOK_DIR cfg) [''iwslt'', ''fr-en'', ''train.fr-en.fr''])]
           = [(EN cfg, join (ROOT_TOK_DIR cfg) [''iwslt'', ''en-de'', ''train.en-de.en'']),
               (DE cfg, join (ROOT_TOK_DIR cfg) [''iwslt'', ''en-de'', ''train.en-de.de'']),
               (FR cfg, join (ROOT_TOK_DIR cfg) [''iwslt'', ''fr-en'', ''train.fr-en.fr''])]"
    using assms by (rule lang_files_distinct)
  show ?thesis
    unfolding learn_bpe_def d Let_def
    using assms by (auto simp: dict_keys_def lookups_def spec_learn_cmd_def)
qed

text \<open>
  C6. With distinct codes for English, German and French, \<^verbatim>\<open>learn_bpe\<close> adds to the events
  nothing, or the skip message alone, or the start message followed by one call of the
  learner with the command line of the spec: the learner is started at most once. When
  the root directory and \<^verbatim>\<open>bpe.codes\<close> exist, the skip message is all that happens. When
  \<^verbatim>\<open>bpe.codes\<close> does not exist (in an existing root directory, or after the root directory
  has been created), the start message is logged and the learner is called.
\<close>

theorem learn_bpe_once:
  assumes "distinct [EN cfg, DE cfg, FR cfg]"
  shows "(events (snd (learn_bpe env cfg w)) = events w
          \<or> events (snd (learn_bpe env cfg w))
               = events w @ [Info ''bpe.codes file exist, skipping...'']
          \<or> events (snd (learn_bpe env cfg w))
               = events w @ [Info ''Learning BPE on joint language...'', Call (spec_learn_cmd cfg)])
       \<and> (path_exists env (ROOT_BPE_DIR cfg) (files w) \<and>
          path_exists env (join (ROOT_BPE_DIR cfg) [''bpe.codes'']) (files w) \<longrightarrow>
            learn_bpe env cfg w
              = (None, w\<lparr>events := events w @ [Info ''bpe.codes file exist, skipping...'']\<rparr>))
       \<and> (path_exists env (ROOT_BPE_DIR cfg) (files w) \<and>
          \<not> path_exists env (join (ROOT_BPE_DIR cfg) [''bpe.codes'']) (files w) \<longrightarrow>
            learn_bpe env cfg w
              = on_files (subprocess_call env (spec_learn_cmd cfg))
                  (w\<lparr>events := events w @ [Info ''Learning BPE on joint language...'',
                                               Call (spec_learn_cmd cfg)]\<rparr>))
       \<and> (\<not> path_exists env (ROOT_BPE_DIR cfg) (files w) \<and>
          makedirs env (ROOT_BPE_DIR cfg) (files w) = (None, f) \<and>
          \<not> path_exists env (join (ROOT_BPE_DIR cfg) [''bpe.codes'']) f \<longrightarrow>
            learn_bpe env cfg w
              = on_files (subprocess_call env (spec_learn_cmd cfg))
                  (w\<lparr>files := f,
                     events := events w @ [Info ''Learning BPE on joint language...'',
                                           Call (spec_learn_cmd cfg)]\<rparr>))"
proof -
  note l = learn_bpe_cmd [OF assms, of env]
  have skip: "path_exists env (ROOT_BPE_DIR cfg) (files w) \<and>
          path_exists env (join (ROOT_BPE_DIR cfg) [''bpe.codes'']) (files w) \<longrightarrow>
            learn_bpe env cfg w
              = (None, w\<lparr>events := events w @ [Info ''bpe.codes file exist, skipping...'']\<rparr>)"
    by (simp add: l seq_def if_exists_def returns_def LOGGER_info_def)
  have run: "path_exists env (ROOT_BPE_DIR cfg) (files w) \<and>
          \<not> path_exists env (join (ROOT_BPE_DIR cfg) [''bpe.codes'']) (files w) \<longrightarrow>
            learn_bpe env cfg w
              = on_files (subprocess_call env (spec_learn_cmd cfg))
                  (w\<lparr>events := events w @ [Info ''Learning BPE on joint language...'',
                                               Call (spec_learn_cmd cfg)]\<rparr>)"
    by (simp add: l seq_def if_exists_def returns_def LOGGER_info_def call_def)
  have first: "\<not> path_exists env (ROOT_BPE_DIR cfg) (files w) \<and>
          makedirs env (ROOT_BPE_DIR cfg) (files w) = (None, f) \<and>
          \<not> path_exists env (join (ROOT_BPE_DIR cfg) [''bpe.codes'']) f \<longrightarrow>
            learn_bpe env cfg w
              = on_files (subprocess_call env (spec_learn_cmd cfg))
                  (w\<lparr>files := f,
                     events := events w @ [Info ''Learning BPE on joint language...'',
                                           Call (spec_learn_cmd cfg)]\<rparr>)"
    by (auto simp: l seq_def if_exists_def returns_def LOGGER_info_def call_def on_files_def
          split: prod.splits option.splits)
  have once: "events (snd (learn_bpe env cfg w)) = events w
          \<or> events (snd (learn_bpe env cfg w))
               = events w @ [Info ''bpe.codes file exist, skipping...'']
          \<or> events (snd (learn_bpe env cfg w))
               = events w @ [Info ''Learning BPE on joint language...'', Call (spec_learn_cmd cfg)]"
    by (auto simp: l seq_def if_exists_def returns_def LOGGER_info_def call_def on_files_def
          split: prod.splits option.splits)
  show ?thesis
    by (rule conjI [OF once conjI [OF skip conjI [OF run first]]])
qed

theorem learn_bpe_once_witness:
  "learn_bpe mem_env example_settings example_world
     = (None, example_world\<lparr>events := [Info ''bpe.codes file exist, skipping...'']\<rparr>)
   \<and> events (snd (learn_bpe mem_env example_settings (example_world\<lparr>files := [(''/data/bpe'', Dir)]\<rparr>)))
     = [Info ''Learning BPE on joint language...'',
        Call [''python'', ''learn_joint_bpe_and_vocab.py'', ''--input'',
              ''/data/tok/iwslt/en-de/train.en-de.en'', ''/data/tok/iwslt/en-de/train.en-de.de'',
              ''/data/tok/iwslt/fr-en/train.fr-en.fr'', ''-s'', ''10000'',
              ''-o'', ''/data/bpe/bpe.codes'', ''--write-vocabulary'',
              ''/data/bpe/vocab.en'', ''/data/bpe/vocab.de'', ''/data/bpe/vocab.fr'']]"
proof
  have d: "distinct [EN example_settings, DE example_settings, FR example_settings]"
    by (simp add: example_settings_def)
  have there: "path_exists mem_env (ROOT_BPE_DIR example_settings) (files example_world) \<and>
      path_exists mem_env (join (ROOT_BPE_DIR example_settings) [''bpe.codes'']) (files example_world)"
    by code_simp
  have "learn_bpe mem_env example_settings example_world
          = (None, example_world\<lparr>events := events example_world
                                     @ [Info ''bpe.codes file exist, skipping...'']\<rparr>)"
    by (rule mp [OF conjunct1 [OF conjunct2 [OF learn_bpe_once [OF d]]] there])
  then show "learn_bpe mem_env example_settings example_world
     = (None, example_world\<lparr>events := [Info ''bpe.codes file exist, skipping...'']\<rparr>)"
    by (simp add: example_world_def)
  let ?w = "example_world\<lparr>files := [(''/data/bpe'', Dir)]\<rparr>"
  have missing: "path_exists mem_env (ROOT_BPE_DIR example_settings) (files ?w) \<and>
      \<not> path_exists mem_env (join (ROOT_BPE_DIR example_settings) [''bpe.codes'']) (files ?w)"
    by code_simp
  have "learn_bpe mem_env example_settings ?w
          = on_files (subprocess_call mem_env (spec_learn_cmd example_settings))
              (?w\<lparr>events := events ?w @ [Info ''Learning BPE on joint language...'',
                                           Call (spec_learn_cmd example_settings)]\<rparr>)"
    by (rule mp [OF conjunct1 [OF conjunct2 [OF conjunct2 [OF learn_bpe_once [OF d]]]] missing])
  moreover have "spec_learn_cmd example_settings =
      [''python'', ''learn_joint_bpe_and_vocab.py'', ''--input'',
       ''/data/tok/iwslt/en-de/train.en-de.en'', ''/data/tok/iwslt/en-de/train.en-de.de'',
       ''/data/tok/iwslt/fr-en/train.fr-en.fr'', ''-s'', ''10000'',
       ''-o'', ''/data/bpe/bpe.codes'', ''--write-vocabulary'',
       ''/data/bpe/vocab.en'', ''/data/bpe/vocab.de'', ''/data/bpe/vocab.fr'']"
    by code_simp
  ultimately show "events (snd (learn_bpe mem_env example_settings ?w))
     = [Info ''Learning BPE on joint language...'',
        Call [''python'', ''learn_joint_bpe_and_vocab.py'', ''--input'',
              ''/data/tok/iwslt/en-de/train.en-de.en'', ''/data/tok/iwslt/en-de/train.en-de.de'',
              ''/data/tok/iwslt/fr-en/train.fr-en.fr'', ''-s'', ''10000'',
              ''-o'', ''/data/bpe/bpe.codes'', ''--write-vocabulary'',
              ''/data/bpe/vocab.en'', ''/data/bpe/vocab.de'', ''/data/bpe/vocab.fr'']]"
    by (simp add: events_on_files example_world_def)
qed

text \<open>
  C7. Without \<^verbatim>\<open>bpe.codes\<close> in the root directory, \<^verbatim>\<open>apply_bpe\<close> fails with an assertion
  error and leaves the world, events included, as it was. With it, the call logs its
  message and starts the applier with the command line of the spec: the codes file, the
  vocabulary file \<^verbatim>\<open>vocab<lang>\<close>, the threshold \<open>MIN_FREQ\<close>, the input and the output file.
\<close>

theorem apply_bpe_command:
  "(\<not> path_exists env (join (ROOT_BPE_DIR cfg) [''bpe.codes'']) (files w) \<longrightarrow>
      apply_bpe env cfg in_file out_file lang w = (Some AssertionError, w))
   \<and> (path_exists env (join (ROOT_BPE_DIR cfg) [''bpe.codes'']) (files w) \<longrightarrow>
      apply_bpe env cfg in_file out_file lang w
        = on_files (subprocess_call env (spec_apply_cmd cfg in_file out_file lang))
            (w\<lparr>events := events w @ [Info (''Applying BPE to '' @ basename out_file),
                                         Call (spec_apply_cmd cfg in_file out_file lang)]\<rparr>))"
  by (simp add: apply_bpe_def Let_def if_exists_def raise_def seq_def LOGGER_info_def call_def
        spec_apply_cmd_def)

theorem apply_bpe_command_witness:
  "apply_bpe mem_env example_settings ''/data/tok/multi30k/train.en'' ''/data/bpe/multi30k/train.en''
     ''.en'' (example_world\<lparr>files := []\<rparr>)
     = (Some AssertionError, example_world\<lparr>files := []\<rparr>)
   \<and> events (snd (apply_bpe mem_env example_settings ''/data/tok/multi30k/train.en''
                     ''/data/bpe/multi30k/train.en'' ''.en'' example_world))
     = [Info ''Applying BPE to train.en'',
        Call [''python'', ''apply_bpe.py'', ''-c'', ''/data/bpe/bpe.codes'',
              ''--vocabulary'', ''/data/bpe/vocab.en'', ''--vocabulary-threshold'', ''5'',
              ''--input'', ''/data/tok/multi30k/train.en'',
              ''--output'', ''/data/bpe/multi30k/train.en'']]"
proof
  let ?w = "example_world\<lparr>files := []\<rparr>"
  have "\<not> path_exists mem_env (join (ROOT_BPE_DIR example_settings) [''bpe.codes'']) (files ?w)"
    by code_simp
  then show "apply_bpe mem_env example_settings ''/data/tok/multi30k/train.en''
               ''/data/bpe/multi30k/train.en'' ''.en'' ?w = (Some AssertionError, ?w)"
    by (rule mp [OF conjunct1 [OF apply_bpe_command]])
  have "path_exists mem_env (join (ROOT_BPE_DIR example_settings) [''bpe.codes''])
          (files example_world)"
    by code_simp
  then have "apply_bpe mem_env example_settings ''/data/tok/multi30k/train.en''
               ''/data/bpe/multi30k/train.en'' ''.en'' example_world
        = on_files (subprocess_call mem_env
              (spec_apply_cmd example_settings ''/data/tok/multi30k/train.en''
                 ''/data/bpe/multi30k/train.en'' ''.en''))
            (example_world\<lparr>events := events example_world @
               [Info (''Applying BPE to '' @ basename ''/data/bpe/multi30k/train.en''),
                Call (spec_apply_cmd example_settings ''/data/tok/multi30k/train.en''
                        ''/data/bpe/multi30k/train.en'' ''.en'')]\<rparr>)"
    by (rule mp [OF conjunct2 [OF apply_bpe_command]])
  moreover have "spec_apply_cmd example_settings ''/data/tok/multi30k/train.en''
                   ''/data/bpe/multi30k/train.en'' ''.en''
      = [''python'', ''apply_bpe.py'', ''-c'', ''/data/bpe/bpe.codes'',
         ''--vocabulary'', ''/data/bpe/vocab.en'', ''--vocabulary-threshold'', ''5'',
         ''--input'', ''/data/tok/multi30k/train.en'',
         ''--output'', ''/data/bpe/multi30k/train.en'']"
    by code_simp
  moreover have "basename ''/data/bpe/multi30k/train.en'' = ''train.en''"
    by code_simp
  ultimately show "events (snd (apply_bpe mem_env example_settings ''/data/tok/multi30k/train.en''
                     ''/data/bpe/multi30k/train.en'' ''.en'' example_world))
     = [Info ''Applying BPE to train.en'',
        Call [''python'', ''apply_bpe.py'', ''-c'', ''/data/bpe/bpe.codes'',
              ''--vocabulary'', ''/data/bpe/vocab.en'', ''--vocabulary-threshold'', ''5'',
              ''--input'', ''/data/tok/multi30k/train.en'',
              ''--output'', ''/data/bpe/multi30k/train.en'']]"
    by (simp add: events_on_files example_world_def)
qed

text \<open>
  C8. When the directory that a stage writes exists, the stage logs its skip message and
  returns: the file system and the class attributes are untouched and no program or
  library routine is started. This holds for the download and the tokenization of an
  IWSLT pair, the download of multi30k, and the application of BPE to an IWSLT pair and
  to multi30k.
\<close>

theorem existing_output_is_skipped:
  "(path_exists env (join (ROOT_CORPUS_DIR cfg)
        [IWSLT_name env, IWSLT_base_dirname env (drop 1 s) (drop 1 t)]) (files w) \<longrightarrow>
      IWSLT_download_helper env cfg s t w
        = (None, w\<lparr>events := events w @
             [Info (''iwslt '' @ drop 1 s @ ''-'' @ drop 1 t @ '' exists, skipping...'')]\<rparr>))
   \<and> (path_exists env (join (ROOT_TOK_DIR cfg)
        [IWSLT_name env, IWSLT_base_dirname env (drop 1 s) (drop 1 t)]) (files w) \<longrightarrow>
      tokenize_IWSLT_helper env cfg s t w
        = (None, w\<lparr>events := events w @
             [Info (join (ROOT_TOK_DIR cfg)
                      [IWSLT_name env, IWSLT_base_dirname env (drop 1 s) (drop 1 t)]
                    @ '' exists, skipping...'')]\<rparr>))
   \<and> (path_exists env (join (ROOT_CORPUS_DIR cfg) [''multi30k'']) (files w) \<longrightarrow>
      download_multi30k env cfg w
        = (None, w\<lparr>events := events w @ [Info ''multi30k exists, skipping...'']\<rparr>))
   \<and> (path_exists env (join (ROOT_BPE_DIR cfg)
        [IWSLT_name env, IWSLT_base_dirname env (drop 1 s) (drop 1 t)]) (files w) \<longrightarrow>
      apply_bpe_iwslt env cfg s t w
        = (None, w\<lparr>events := events w @
             [Info (''BPE IWSLT for '' @ drop 1 s @ ''-'' @ drop 1 t @ '' exists, skipping...'')]\<rparr>))
   \<and> (path_exists env (join (ROOT_BPE_DIR cfg) [''multi30k'']) (files w) \<longrightarrow>
      apply_bpe_multi30k env cfg w
        = (None, w\<lparr>events := events w @ [Info ''BPE Multi30k exists, skipping...'']\<rparr>))"
  by (simp add: IWSLT_download_helper_def tokenize_IWSLT_helper_def download_multi30k_def
        apply_bpe_iwslt_def apply_bpe_multi30k_def Let_def if_exists_def LOGGER_info_def)

theorem existing_output_is_skipped_witness:
  "apply_bpe_iwslt mem_env example_settings ''.en'' ''.de'' example_world
     = (None, example_world\<lparr>events := [Info ''BPE IWSLT for en-de exists, skipping...'']\<rparr>)"
proof -
  have "path_exists mem_env (join (ROOT_BPE_DIR example_settings)
          [IWSLT_name mem_env, IWSLT_base_dirname mem_env (drop 1 ''.en'') (drop 1 ''.de'')])
          (files example_world)"
    by code_simp
  then have "apply_bpe_iwslt mem_env example_settings ''.en'' ''.de'' example_world
        = (None, example_world\<lparr>events := events example_world @
             [Info (''BPE IWSLT for '' @ drop 1 ''.en'' @ ''-'' @ drop 1 ''.de''
                    @ '' exists, skipping...'')]\<rparr>)"
    by (rule mp [OF conjunct1 [OF conjunct2 [OF conjunct2 [OF conjunct2
                   [OF existing_output_is_skipped]]]]])
  then show ?thesis
    by (simp add: example_world_def)
qed

end
